theory Spec2Isabelle
  imports Main
begin

section \<open>Fiona's build script, setup.py\<close>

text \<open>
  The script is a straight-line Python module: it reads the version from
  \<^verbatim>\<open>fiona/__init__.py\<close>, writes \<^verbatim>\<open>VERSION.txt\<close>, asks \<^verbatim>\<open>gdal-config\<close> for compiler
  and linker options, optionally stages GDAL and PROJ.4 data directories, selects the
  extension modules and calls \<^verbatim>\<open>setup\<close>. The model follows it statement by statement.
  Python strings are \<^typ>\<open>string\<close> (byte strings, as \<^verbatim>\<open>str\<close> of Python 2, which the
  script supports); raised exceptions are values of \<^verbatim>\<open>py_exc\<close>; the operating system
  (environment, child processes, \<^verbatim>\<open>shutil\<close>, \<^verbatim>\<open>os.path.exists\<close>, Cython) is a record
  of functions the script is run against, so every theorem holds for whatever these do.
\<close>

subsection \<open>Python string operations used by the script\<close>

text \<open>\<^verbatim>\<open>str.startswith\<close>.\<close>

definition startswith :: "string \<Rightarrow> string \<Rightarrow> bool" where
  "startswith s p = (take (length p) s = p)"

text \<open>
  \<^verbatim>\<open>s.find(sub)\<close>: the lowest index where \<^verbatim>\<open>sub\<close> occurs; \<open>None\<close> stands for
  Python's \<^verbatim>\<open>-1\<close>.
\<close>

fun py_find :: "string \<Rightarrow> string \<Rightarrow> nat option" where
  "py_find [] sub = (if sub = [] then Some 0 else None)"
| "py_find (c # cs) sub =
     (if startswith (c # cs) sub then Some 0 else map_option Suc (py_find cs sub))"

text \<open>
  \<^verbatim>\<open>s.split(sep)\<close> for a one-character separator: never empty, one more piece
  than there are separators.
\<close>

fun split_on :: "char \<Rightarrow> string \<Rightarrow> string list" where
  "split_on sep [] = [[]]"
| "split_on sep (c # cs) =
     (if c = sep then [] # split_on sep cs
      else (case split_on sep cs of
              [] \<Rightarrow> [[c]]
            | w # ws \<Rightarrow> (c # w) # ws))"

text \<open>The whitespace of a Python 2 \<^verbatim>\<open>str\<close>: tab, newline, VT, FF, CR and space.\<close>

definition is_space :: "char \<Rightarrow> bool" where
  "is_space c \<longleftrightarrow>
     c = CHR 0x09 \<or> c = CHR 0x0A \<or> c = CHR 0x0B \<or> c = CHR 0x0C \<or> c = CHR 0x0D \<or> c = CHR 0x20"

text \<open>
  \<^verbatim>\<open>s.split()\<close> without an argument: the maximal runs of non-whitespace, in order.
  The accumulator holds the current run, reversed.
\<close>

fun split_words :: "string \<Rightarrow> string \<Rightarrow> string list" where
  "split_words acc [] = (if acc = [] then [] else [rev acc])"
| "split_words acc (c # cs) =
     (if is_space c
      then (if acc = [] then split_words [] cs else rev acc # split_words [] cs)
      else split_words (c # acc) cs)"

definition py_split :: "string \<Rightarrow> string list" where
  "py_split s = split_words [] s"

text \<open>\<^verbatim>\<open>s.strip()\<close> and \<^verbatim>\<open>s.strip(chars)\<close>: characters are removed from both ends.\<close>

definition strip_where :: "(char \<Rightarrow> bool) \<Rightarrow> string \<Rightarrow> string" where
  "strip_where p s = rev (dropWhile p (rev (dropWhile p s)))"

definition py_strip :: "string \<Rightarrow> string" where
  "py_strip s = strip_where is_space s"

definition strip_chars :: "string \<Rightarrow> string \<Rightarrow> string" where
  "strip_chars chars s = strip_where (\<lambda>c. c \<in> set chars) s"

text \<open>
  Iterating over a text file gives its lines, each with its newline; a last line
  without one is given as it is. Lines end at the newline character only.
\<close>

fun file_lines :: "string \<Rightarrow> string \<Rightarrow> string list" where
  "file_lines acc [] = (if acc = [] then [] else [rev acc])"
| "file_lines acc (c # cs) =
     (if c = CHR 0x0A then rev (c # acc) # file_lines [] cs
      else file_lines (c # acc) cs)"

text \<open>
  \<^verbatim>\<open>f.readline()\<close> on the unread rest of a file: the line read (with its newline,
  empty at the end of the file) and what is left.
\<close>

definition readline :: "string \<Rightarrow> string \<times> string" where
  "readline s =
     (let body = takeWhile (\<lambda>c. c \<noteq> CHR 0x0A) s;
          rest = dropWhile (\<lambda>c. c \<noteq> CHR 0x0A) s
      in (body @ take 1 rest, drop 1 rest))"

subsection \<open>Exceptions, the log, and the system the script runs against\<close>

datatype py_exc =
    OSError string
  | IOError string
  | IndexError string
  | NameError string
  | OtherException string string
  | KeyboardInterrupt
  | SystemExit int

text \<open>
  \<^verbatim>\<open>except Exception\<close> catches every exception class but the two that derive from
  \<^verbatim>\<open>BaseException\<close> directly. \<open>OtherException cls msg\<close> is any other subclass of
  \<^verbatim>\<open>Exception\<close> (\<^verbatim>\<open>shutil.Error\<close>, \<^verbatim>\<open>UnicodeDecodeError\<close>, ...).
\<close>

fun is_Exception :: "py_exc \<Rightarrow> bool" where
  "is_Exception KeyboardInterrupt = False"
| "is_Exception (SystemExit _) = False"
| "is_Exception _ = True"

text \<open>\<^verbatim>\<open>str(e)\<close>, as the warning prints it.\<close>

fun str_exc :: "py_exc \<Rightarrow> string" where
  "str_exc (OSError m) = m"
| "str_exc (IOError m) = m"
| "str_exc (IndexError m) = m"
| "str_exc (NameError m) = m"
| "str_exc (OtherException _ m) = m"
| "str_exc KeyboardInterrupt = []"
| "str_exc (SystemExit _) = []"

datatype level = DEBUG | INFO | WARNING | ERROR | CRITICAL

record ext_options =
  include_dirs :: "string list"
  library_dirs :: "string list"
  libraries :: "string list"
  extra_link_args :: "string list"

text \<open>\<^verbatim>\<open>Extension(name, sources, **ext_options)\<close>.\<close>

record Extension =
  name :: string
  sources :: "string list"
  options :: ext_options

text \<open>
  What the script can see and change: the text files it opens (by path), the directory
  trees \<^verbatim>\<open>shutil\<close> works on (of a type \<open>'t\<close> the model leaves open), the calls made on
  the root logger, and the four module-level option lists.
\<close>

record 't state =
  files :: "string \<rightharpoonup> string"
  trees :: 't
  logged :: "(level \<times> string) list"
  opts :: ext_options

text \<open>
  The system: \<^verbatim>\<open>os.environ\<close>, \<^verbatim>\<open>sys.version_info\<close> (major, minor), the imported
  \<^verbatim>\<open>cythonize\<close> (\<open>None\<close> after the \<^verbatim>\<open>ImportError\<close>), \<^verbatim>\<open>subprocess.call\<close> with
  its standard output redirected (the text the child prints, or the exception raised
  when it cannot be started), \<^verbatim>\<open>os.path.exists\<close>, \<^verbatim>\<open>shutil.rmtree\<close> and
  \<^verbatim>\<open>shutil.copytree\<close> (the exception raised, if any, and the trees left behind).
\<close>

record 't os =
  environ :: "string \<rightharpoonup> string"
  version_info :: "nat \<times> nat"
  cythonize :: "(Extension list \<Rightarrow> py_exc + Extension list) option"
  subprocess_call :: "string list \<Rightarrow> py_exc + string"
  path_exists :: "string \<Rightarrow> 't state \<Rightarrow> bool"
  rmtree :: "string \<Rightarrow> 't \<Rightarrow> py_exc option \<times> 't"
  copytree :: "string \<Rightarrow> string \<Rightarrow> 't \<Rightarrow> py_exc option \<times> 't"

text \<open>
  \<^verbatim>\<open>except OSError\<close>: in Python 3 \<^verbatim>\<open>IOError\<close> is the same class, in Python 2 a
  sibling.
\<close>

definition except_OSError :: "'t os \<Rightarrow> py_exc \<Rightarrow> bool" where
  "except_OSError sys e =
     (case e of OSError _ \<Rightarrow> True | IOError _ \<Rightarrow> 3 \<le> fst (version_info sys) | _ \<Rightarrow> False)"

text \<open>\<^verbatim>\<open>os.environ.get(key, default)\<close>, and the truth value of \<^verbatim>\<open>os.environ.get(key)\<close>.\<close>

definition environ_get :: "'t os \<Rightarrow> string \<Rightarrow> string \<Rightarrow> string" where
  "environ_get sys key dflt = (case environ sys key of None \<Rightarrow> dflt | Some v \<Rightarrow> v)"

definition environ_true :: "'t os \<Rightarrow> string \<Rightarrow> bool" where
  "environ_true sys key = (case environ sys key of None \<Rightarrow> False | Some v \<Rightarrow> v \<noteq> [])"

definition log_call :: "level \<Rightarrow> string \<Rightarrow> 't state \<Rightarrow> 't state" where
  "log_call lv msg st = st\<lparr>logged := logged st @ [(lv, msg)]\<rparr>"

text \<open>\<^verbatim>\<open>open(path).read()\<close>, and \<^verbatim>\<open>open(path, 'w')\<close> followed by a write.\<close>

definition read_file :: "string \<Rightarrow> 't state \<Rightarrow> py_exc + string" where
  "read_file path st =
     (case files st path of
        None \<Rightarrow> Inl (IOError (''No such file or directory: '' @ path))
      | Some text \<Rightarrow> Inr text)"

definition write_file :: "string \<Rightarrow> string \<Rightarrow> 't state \<Rightarrow> 't state" where
  "write_file path text st = st\<lparr>files := (files st)(path \<mapsto> text)\<rparr>"

subsection \<open>Lines 22 to 38: the version\<close>

text \<open>
  \<^verbatim>\<open>line.split("=")[1].strip()\<close>, then \<^verbatim>\<open>.strip('"')\<close>, then \<^verbatim>\<open>.strip("'")\<close>. The
  index raises \<^verbatim>\<open>IndexError\<close> on a line without \<^verbatim>\<open>=\<close>.
\<close>

definition version_of_line :: "string \<Rightarrow> py_exc + string" where
  "version_of_line line =
     (case split_on (CHR ''='') line of
        a # b # rest \<Rightarrow> Inr (strip_chars [CHR 0x27] (strip_chars [CHR 0x22] (py_strip b)))
      | _ \<Rightarrow> Inl (IndexError ''list index out of range''))"

text \<open>
  The loop over the lines of \<^verbatim>\<open>fiona/__init__.py\<close>; \<open>version\<close> is \<open>None\<close> while
  the variable is unbound.
\<close>

fun parse_version :: "string list \<Rightarrow> string option \<Rightarrow> py_exc + string option" where
  "parse_version [] version = Inr version"
| "parse_version (line # rest) version =
     (if py_find line ''__version__'' \<noteq> None
      then (case version_of_line line of
              Inl e \<Rightarrow> Inl e
            | Inr v \<Rightarrow> parse_version rest (Some v))
      else parse_version rest version)"

text \<open>
  \<^verbatim>\<open>with open('VERSION.txt', 'w') as f: f.write(version)\<close>: the file is created
  (or emptied) before the name \<open>version\<close> is looked up.
\<close>

definition write_version :: "string option \<Rightarrow> 't state \<Rightarrow> (py_exc + string) \<times> 't state" where
  "write_version version st =
     (case version of
        None \<Rightarrow> (Inl (NameError ''name 'version' is not defined''),
                 write_file ''VERSION.txt'' [] st)
      | Some v \<Rightarrow> (Inr v, write_file ''VERSION.txt'' v st))"

subsection \<open>Lines 49 to 88: options from gdal-config\<close>

text \<open>
  Steps that may raise and that change the state are functions from the state to an
  outcome (\<open>Inl\<close> the exception raised) and the state left behind; \<open>and_then\<close> runs
  the next statement only after a normal outcome. An exception does not undo what was
  done before it.
\<close>

definition and_then ::
  "('s \<Rightarrow> (py_exc + 'a) \<times> 's) \<Rightarrow> ('a \<Rightarrow> 's \<Rightarrow> (py_exc + 'b) \<times> 's) \<Rightarrow> 's \<Rightarrow> (py_exc + 'b) \<times> 's" where
  "and_then m f st = (case m st of (Inl e, st') \<Rightarrow> (Inl e, st') | (Inr x, st') \<Rightarrow> f x st')"

text \<open>
  \<^verbatim>\<open>subprocess.call(argv, stdout=gcfg)\<close>: what the child prints goes to the end of the
  open file.
\<close>

definition call_into :: "'t os \<Rightarrow> string list \<Rightarrow> string \<Rightarrow> 't state \<Rightarrow> (py_exc + unit) \<times> 't state" where
  "call_into sys argv path st =
     (case subprocess_call sys argv of
        Inl e \<Rightarrow> (Inl e, st)
      | Inr out \<Rightarrow>
          (Inr (), write_file path ((case files st path of None \<Rightarrow> [] | Some old \<Rightarrow> old) @ out) st))"

text \<open>
  Lines 57 to 65: the three calls write \<^verbatim>\<open>gdal-config.txt\<close>, from which \<open>cflags\<close>,
  \<open>libs\<close> and \<open>datadir\<close> are read back as its first three lines, stripped.
\<close>

definition run_gdal_config :: "'t os \<Rightarrow> 't state \<Rightarrow> (py_exc + string \<times> string \<times> string) \<times> 't state" where
  "run_gdal_config sys =
     (let gdal_config = environ_get sys ''GDAL_CONFIG'' ''gdal-config'' in
      and_then (\<lambda>st. (Inr (), write_file ''gdal-config.txt'' [] st)) (\<lambda>_.
      and_then (call_into sys [gdal_config, ''--cflags''] ''gdal-config.txt'') (\<lambda>_.
      and_then (call_into sys [gdal_config, ''--libs''] ''gdal-config.txt'') (\<lambda>_.
      and_then (call_into sys [gdal_config, ''--datadir''] ''gdal-config.txt'') (\<lambda>_.
      and_then (\<lambda>st. (read_file ''gdal-config.txt'' st, st)) (\<lambda>text st.
        (let (line1, rest1) = readline text;
             (line2, rest2) = readline rest1;
             (line3, rest3) = readline rest2
         in (Inr (py_strip line1, py_strip line2, py_strip line3), st))))))))"

text \<open>Lines 66 to 68: the loop over \<^verbatim>\<open>cflags.split()\<close>.\<close>

fun cflags_loop :: "string list \<Rightarrow> ext_options \<Rightarrow> ext_options" where
  "cflags_loop [] eo = eo"
| "cflags_loop (item # items) eo =
     cflags_loop items
       (if startswith item ''-I''
        then eo\<lparr>include_dirs := include_dirs eo @ split_on (CHR '':'') (drop 2 item)\<rparr>
        else eo)"

text \<open>Lines 69 to 76: the loop over \<^verbatim>\<open>libs.split()\<close>.\<close>

fun libs_loop :: "string list \<Rightarrow> ext_options \<Rightarrow> ext_options" where
  "libs_loop [] eo = eo"
| "libs_loop (item # items) eo =
     libs_loop items
       (if startswith item ''-L''
        then eo\<lparr>library_dirs := library_dirs eo @ split_on (CHR '':'') (drop 2 item)\<rparr>
        else if startswith item ''-l''
        then eo\<lparr>libraries := libraries eo @ [drop 2 item]\<rparr>
        else eo\<lparr>extra_link_args := extra_link_args eo @ [item]\<rparr>)"

definition parse_options :: "string \<Rightarrow> string \<Rightarrow> ext_options \<Rightarrow> ext_options" where
  "parse_options cflags libs eo = libs_loop (py_split libs) (cflags_loop (py_split cflags) eo)"

text \<open>
  \<^verbatim>\<open>try: shutil.rmtree(path)\<close> \<^verbatim>\<open>except OSError: pass\<close>, and \<^verbatim>\<open>shutil.copytree\<close>.
\<close>

definition rmtree_quiet :: "'t os \<Rightarrow> string \<Rightarrow> 't state \<Rightarrow> (py_exc + unit) \<times> 't state" where
  "rmtree_quiet sys path st =
     (case rmtree sys path (trees st) of
        (None, t) \<Rightarrow> (Inr (), st\<lparr>trees := t\<rparr>)
      | (Some e, t) \<Rightarrow>
          (if except_OSError sys e then Inr () else Inl e, st\<lparr>trees := t\<rparr>))"

definition copytree_step :: "'t os \<Rightarrow> string \<Rightarrow> string \<Rightarrow> 't state \<Rightarrow> (py_exc + unit) \<times> 't state" where
  "copytree_step sys src dst st =
     (case copytree sys src dst (trees st) of
        (None, t) \<Rightarrow> (Inr (), st\<lparr>trees := t\<rparr>)
      | (Some e, t) \<Rightarrow> (Inl e, st\<lparr>trees := t\<rparr>))"

text \<open>The body of the \<^verbatim>\<open>try\<close> statement, lines 57 to 85.\<close>

definition gdal_config_body :: "'t os \<Rightarrow> 't state \<Rightarrow> (py_exc + unit) \<times> 't state" where
  "gdal_config_body sys =
     and_then (run_gdal_config sys) (\<lambda>(cflags, libs, datadir) st.
       (let st1 = st\<lparr>opts := parse_options cflags libs (opts st)\<rparr> in
        if environ_true sys ''PACKAGE_DATA''
        then and_then (rmtree_quiet sys ''fiona/gdal_data'')
               (\<lambda>_. copytree_step sys datadir ''fiona/gdal_data'') st1
        else (Inr (), st1)))"

text \<open>
  The \<^verbatim>\<open>try\<close> statement with its handler, lines 56 to 88:
  \<^verbatim>\<open>except Exception as e: log.warning("Failed to get options via gdal-config: %s", str(e))\<close>.
\<close>

definition gdal_config_section :: "'t os \<Rightarrow> 't state \<Rightarrow> (py_exc + unit) \<times> 't state" where
  "gdal_config_section sys st =
     (case gdal_config_body sys st of
        (Inr u, st') \<Rightarrow> (Inr (), st')
      | (Inl e, st') \<Rightarrow>
          (if is_Exception e
           then (Inr (), log_call WARNING (''Failed to get options via gdal-config: '' @ str_exc e) st')
           else (Inl e, st')))"

subsection \<open>Lines 90 to 98: PROJ.4 data\<close>

definition projdatadir :: "'t os \<Rightarrow> string" where
  "projdatadir sys = environ_get sys ''PROJ_LIB'' ''/usr/local/share/proj''"

definition stage_proj_data :: "'t os \<Rightarrow> 't state \<Rightarrow> (py_exc + unit) \<times> 't state" where
  "stage_proj_data sys st =
     (if environ_true sys ''PACKAGE_DATA''
      then (if path_exists sys (projdatadir sys) st
            then and_then (rmtree_quiet sys ''fiona/proj_data'')
                   (\<lambda>_. copytree_step sys (projdatadir sys) ''fiona/proj_data'') st
            else (Inr (), st))
      else (Inr (), st))"

subsection \<open>Lines 100 to 127: the extension modules\<close>

definition mk_Extension :: "string \<Rightarrow> string list \<Rightarrow> ext_options \<Rightarrow> Extension" where
  "mk_Extension n srcs eo = \<lparr>name = n, sources = srcs, options = eo\<rparr>"

definition pyx_extensions :: "ext_options \<Rightarrow> Extension list" where
  "pyx_extensions eo =
     [mk_Extension ''fiona._geometry'' [''fiona/_geometry.pyx''] eo,
      mk_Extension ''fiona._transform'' [''fiona/_transform.pyx''] eo,
      mk_Extension ''fiona._drivers'' [''fiona/_drivers.pyx''] eo,
      mk_Extension ''fiona._err'' [''fiona/_err.pyx''] eo,
      mk_Extension ''fiona.ogrext'' [''fiona/ogrext.pyx''] eo]"

definition c_extensions :: "ext_options \<Rightarrow> Extension list" where
  "c_extensions eo =
     [mk_Extension ''fiona._transform'' [''fiona/_transform.cpp''] eo,
      mk_Extension ''fiona._geometry'' [''fiona/_geometry.c''] eo,
      mk_Extension ''fiona._drivers'' [''fiona/_drivers.c''] eo,
      mk_Extension ''fiona._err'' [''fiona/_err.c''] eo,
      mk_Extension ''fiona.ogrext'' [''fiona/ogrext.c''] eo]"

definition ext_modules :: "'t os \<Rightarrow> 't state \<Rightarrow> (py_exc + Extension list) \<times> 't state" where
  "ext_modules sys st =
     (let ext_options = opts st in
      if path_exists sys ''MANIFEST.in'' st
      then (let st1 = log_call INFO ''MANIFEST.in found, presume a repo, cythonizing...'' st in
            case cythonize sys of
              None \<Rightarrow>
                (Inl (SystemExit 1),
                 log_call CRITICAL
                   ''Cython.Build.cythonize not found. Cython is required to build from a repo.'' st1)
            | Some cy \<Rightarrow> (cy (pyx_extensions ext_options), st1))
      else (Inr (c_extensions ext_options), st))"

subsection \<open>Lines 129 to 184: the arguments of setup\<close>

text \<open>\<^verbatim>\<open>sys.version_info < (2, 7)\<close> compares tuples lexicographically.\<close>

definition requirements :: "'t os \<Rightarrow> string list" where
  "requirements sys =
     (let (major, minor) = version_info sys in
      [''cligj'', ''six''] @
      (if major < 2 \<or> (major = 2 \<and> minor < 7) then [''argparse'', ''ordereddict''] else []))"

text \<open>The \<^verbatim>\<open>entry_points\<close> literal of lines 151 to 165, character by character.\<close>

definition entry_points :: string where
  "entry_points =
     ''\<newline>'' @
     ''        [console_scripts]\<newline>'' @
     ''        fio=fiona.fio.main:cli\<newline>'' @
     ''\<newline>'' @
     ''        [fiona.fio_commands]\<newline>'' @
     ''        bounds=fiona.fio.fio:bounds\<newline>'' @
     ''        cat=fiona.fio.fio:cat\<newline>'' @
     ''        collect=fiona.fio.fio:collect\<newline>'' @
     ''        distrib=fiona.fio.fio:distrib\<newline>'' @
     ''        dump=fiona.fio.fio:dump\<newline>'' @
     ''        env=fiona.fio.fio:env\<newline>'' @
     ''        info=fiona.fio.fio:info\<newline>'' @
     ''        insp=fiona.fio.fio:insp\<newline>'' @
     ''        load=fiona.fio.fio:load\<newline>'' @
     ''        ''"

text \<open>
  The keyword arguments of \<^verbatim>\<open>setup\<close> that the script computes; the constant metadata
  (name, author, classifiers, ...) is left out. \<open>package_data\<close> is \<open>None\<close> when the
  key is not set.
\<close>

record setup_args =
  version :: string
  long_description :: string
  entry_points_arg :: string
  install_requires :: "string list"
  ext_modules_arg :: "Extension list"
  package_data :: "(string \<times> string list) list option"

definition no_options :: ext_options where
  "no_options = \<lparr>include_dirs = [], library_dirs = [], libraries = [], extra_link_args = []\<rparr>"

text \<open>
  Lines 40 to 184, once \<open>version\<close> is bound: the three texts of the long description,
  the options, the data, the extension modules and the call of \<^verbatim>\<open>setup\<close>. The result
  is the exception that ends the script, or the arguments \<^verbatim>\<open>setup\<close> is called with.
\<close>

definition rest_of_script :: "'t os \<Rightarrow> string \<Rightarrow> 't state \<Rightarrow> (py_exc + setup_args) \<times> 't state" where
  "rest_of_script sys v =
     and_then (\<lambda>st. (read_file ''README.rst'' st, st)) (\<lambda>readme.
     and_then (\<lambda>st. (read_file ''CREDITS.txt'' st, st)) (\<lambda>credits.
     and_then (\<lambda>st. (read_file ''CHANGES.txt'' st, st)) (\<lambda>changes.
     and_then (gdal_config_section sys) (\<lambda>_.
     and_then (stage_proj_data sys) (\<lambda>_.
     and_then (ext_modules sys) (\<lambda>exts st.
       (Inr \<lparr>version = v,
             long_description = readme @ ''\<newline>'' @ changes @ ''\<newline>'' @ credits,
             entry_points_arg = entry_points,
             install_requires = requirements sys,
             ext_modules_arg = exts,
             package_data =
               (if environ_true sys ''PACKAGE_DATA''
                then Some [(''fiona'', [''gdal_data/*'', ''proj_data/*''])]
                else None)\<rparr>,
        st)))))))"

text \<open>
  The whole script, from the text files and directory trees it starts with; the state
  is what it leaves behind, whether it ends in an exception or not.
\<close>

definition setup_py :: "'t os \<Rightarrow> (string \<rightharpoonup> string) \<Rightarrow> 't \<Rightarrow> (py_exc + setup_args) \<times> 't state" where
  "setup_py sys fs tr =
     (and_then (\<lambda>st. (read_file ''fiona/__init__.py'' st, st)) (\<lambda>init.
      and_then (\<lambda>st. (parse_version (file_lines [] init) None, st)) (\<lambda>parsed.
      and_then (write_version parsed) (rest_of_script sys)))
       \<lparr>files = fs, trees = tr, logged = [], opts = no_options\<rparr>)"

subsection \<open>How setuptools reads the entry points\<close>

text \<open>
  The text format of entry points (setuptools, not this repository): lines are stripped,
  empty lines and \<^verbatim>\<open>#\<close> comments dropped; \<^verbatim>\<open>[group]\<close> opens a group; every other
  line is \<^verbatim>\<open>name = module:attr\<close>. \<open>None\<close> is a \<^verbatim>\<open>ValueError\<close>.
\<close>

record entry_point =
  ep_name :: string
  ep_module :: string
  ep_attr :: string

definition yield_lines :: "string \<Rightarrow> string list" where
  "yield_lines s =
     filter (\<lambda>l. l \<noteq> [] \<and> \<not> startswith l ''#'') (map py_strip (split_on (CHR 0x0A) s))"

definition parse_entry :: "string \<Rightarrow> entry_point option" where
  "parse_entry line =
     (case split_on (CHR ''='') line of
        [n, v] \<Rightarrow>
          (case split_on (CHR '':'') v of
             [m, a] \<Rightarrow> Some \<lparr>ep_name = py_strip n, ep_module = py_strip m, ep_attr = py_strip a\<rparr>
           | _ \<Rightarrow> None)
      | _ \<Rightarrow> None)"

text \<open>One line added to the groups read so far, the latest group first.\<close>

fun add_line :: "(string \<times> entry_point list) list option \<Rightarrow> string \<Rightarrow> (string \<times> entry_point list) list option" where
  "add_line None line = None"
| "add_line (Some groups) line =
     (if startswith line ''[''
      then (if last line = CHR '']'' then Some ((py_strip (butlast (tl line)), []) # groups) else None)
      else (case groups of
              [] \<Rightarrow> None
            | (g, entries) # earlier \<Rightarrow>
                (case parse_entry line of
                   None \<Rightarrow> None
                 | Some e \<Rightarrow> Some ((g, entries @ [e]) # earlier))))"

definition parse_map :: "string \<Rightarrow> (string \<times> entry_point list) list option" where
  "parse_map s = map_option rev (foldl add_line (Some []) (yield_lines s))"

subsection \<open>The version as a description, to compare the loop with\<close>

text \<open>
  The lines of \<^verbatim>\<open>fiona/__init__.py\<close> that contain \<^verbatim>\<open>__version__\<close>; the text of a line
  between its first \<^verbatim>\<open>=\<close> and the next one (or the end of the line); the whole text
  after the first \<^verbatim>\<open>=\<close>; and the stripping the script applies.
\<close>

definition version_lines :: "string \<Rightarrow> string list" where
  "version_lines init = filter (\<lambda>line. py_find line ''__version__'' \<noteq> None) (file_lines [] init)"

definition between_equals :: "string \<Rightarrow> string" where
  "between_equals line =
     takeWhile (\<lambda>c. c \<noteq> CHR ''='') (drop 1 (dropWhile (\<lambda>c. c \<noteq> CHR ''='') line))"

definition after_first_equals :: "string \<Rightarrow> string" where
  "after_first_equals line = drop 1 (dropWhile (\<lambda>c. c \<noteq> CHR ''='') line)"

definition unquote :: "string \<Rightarrow> string" where
  "unquote s = strip_chars [CHR 0x27] (strip_chars [CHR 0x22] (py_strip s))"

subsection \<open>Systems to run the script against\<close>

text \<open>
  A system without \<^verbatim>\<open>gdal-config\<close>, without Cython and with an empty environment, on
  which nothing exists; and one that has \<^verbatim>\<open>gdal-config\<close>, Cython (leaving the
  extensions as they are) and \<^verbatim>\<open>PACKAGE_DATA\<close> set, where copying a tree fails. The
  directory trees are the list of paths \<^verbatim>\<open>shutil\<close> has removed.
\<close>

definition bare_system :: "string list os" where
  "bare_system =
     \<lparr>environ = Map.empty,
      version_info = (2, 7),
      cythonize = None,
      subprocess_call = (\<lambda>argv. Inl (OSError ''[Errno 2] No such file or directory'')),
      path_exists = (\<lambda>path st. False),
      rmtree = (\<lambda>path t. (Some (OSError ''[Errno 2] No such file or directory''), t)),
      copytree = (\<lambda>src dst t. (Some (OSError ''[Errno 2] No such file or directory''), t))\<rparr>"

definition gdal_system :: "string list os" where
  "gdal_system =
     \<lparr>environ = [''PACKAGE_DATA'' \<mapsto> ''1''],
      version_info = (3, 6),
      cythonize = Some Inr,
      subprocess_call =
        (\<lambda>argv. if argv = [''gdal-config'', ''--cflags''] then Inr ''-I/usr/include/gdal\<newline>''
                else if argv = [''gdal-config'', ''--libs''] then Inr ''-L/usr/lib -lgdal\<newline>''
                else if argv = [''gdal-config'', ''--datadir''] then Inr ''/usr/share/gdal\<newline>''
                else Inl (OSError ''[Errno 2] No such file or directory'')),
      path_exists = (\<lambda>path st. path = ''MANIFEST.in''),
      rmtree = (\<lambda>path t. (None, path # t)),
      copytree = (\<lambda>src dst t. (Some (OtherException ''shutil.Error'' ''cannot copy''), t))\<rparr>"

definition start :: "string list state" where
  "start = \<lparr>files = Map.empty, trees = [], logged = [], opts = no_options\<rparr>"

text \<open>The text files of a source tree whose \<^verbatim>\<open>fiona/__init__.py\<close> is \<open>init\<close>.\<close>

definition source_files :: "string \<Rightarrow> (string \<rightharpoonup> string)" where
  "source_files init =
     [''fiona/__init__.py'' \<mapsto> init,
      ''README.rst'' \<mapsto> ''Fiona'',
      ''CREDITS.txt'' \<mapsto> ''Credits'',
      ''CHANGES.txt'' \<mapsto> ''Changes'']"

section \<open>The access engine, modelled from the specification\<close>

text \<open>
  The engine that setup.py builds (\<^verbatim>\<open>fiona.ogrext\<close>, \<^verbatim>\<open>fiona._err\<close>, \<^verbatim>\<open>fiona._geometry\<close>,
  \<^verbatim>\<open>fiona._transform\<close>, \<^verbatim>\<open>fiona._drivers\<close>) is not among the sources. What follows is
  written from the specification's sections 3, 4, 7 and 9, for the claims about the Error
  Translator, the Data Source and the Feature Cursor. Geometries and attribute values
  are of types \<open>'g\<close> and \<open>'v\<close> the model leaves open.
\<close>

subsection \<open>Error Translator\<close>

text \<open>
  Modelled from the spec: the error taxonomy of section 7; the code that raises these
  errors is missing from the sources.
\<close>

datatype error_kind =
    DriverNotFound
  | DataSourceOpenError
  | LayerNotFound
  | SchemaMismatch
  | UnsupportedOperation
  | GeometryConversionError
  | CRSTransformError
  | NativeWarning
  | NativeFatalError

text \<open>
  Modelled from the spec: the ErrorRecord of section 3 (severity, numeric native code,
  message text); the Error Translator that produces it is missing from the sources.
\<close>

datatype severity = Warning | Error | Fatal

record error_record =
  severity :: severity
  number :: int
  message :: string

text \<open>
  Modelled from the spec: a structured error of section 7, which keeps the native
  numeric code and the message text; the error classes are missing from the sources.
\<close>

record structured_error =
  kind :: error_kind
  native_code :: int
  native_message :: string

text \<open>
  Modelled from the spec: an operation run under the capture context of section 4.6, as
  the native library is seen through it: the diagnostics it raises, in order, and the
  value it returns if it is left to run to its end. The native calls themselves are
  missing from the sources.
\<close>

datatype 'a native_op = Return 'a | Emit error_record "'a native_op"

fun diagnostics :: "'a native_op \<Rightarrow> error_record list" where
  "diagnostics (Return x) = []"
| "diagnostics (Emit r rest) = r # diagnostics rest"

fun returned :: "'a native_op \<Rightarrow> 'a" where
  "returned (Return x) = x"
| "returned (Emit r rest) = returned rest"

text \<open>
  Modelled from the spec: the severity policy of section 4.6, for \<^verbatim>\<open>with_error_capture\<close>
  (missing from the sources). A warning is collected and the operation goes on; an error
  or a fatal record aborts it and is raised as a structured error with the record's code
  and message: of the kind \<open>k\<close> that section 7 gives the operation's failures, or
  \<open>NativeFatalError\<close> for a fatal record. A result that is reached comes with the
  warnings collected, in order.
\<close>

fun capture :: "error_kind \<Rightarrow> error_record list \<Rightarrow> 'a native_op \<Rightarrow> structured_error + 'a \<times> error_record list" where
  "capture k collected (Return x) = Inr (x, collected)"
| "capture k collected (Emit r rest) =
     (case severity r of
        Warning \<Rightarrow> capture k (collected @ [r]) rest
      | Error \<Rightarrow> Inl \<lparr>kind = k, native_code = number r, native_message = message r\<rparr>
      | Fatal \<Rightarrow> Inl \<lparr>kind = NativeFatalError, native_code = number r, native_message = message r\<rparr>)"

definition with_error_capture :: "error_kind \<Rightarrow> 'a native_op \<Rightarrow> structured_error + 'a \<times> error_record list" where
  "with_error_capture k operation = capture k [] operation"

subsection \<open>Data Source, Layer and Feature Cursor\<close>

text \<open>
  Modelled from the spec: the data model of section 3 (open mode, capability flags,
  field types, geometry types, Feature, Layer, DataSource); the classes are missing
  from the sources. The capability flags are the five of section 3 and the three that
  section 4 asks for by name (layer creation, update, delete). A DataSource carries the
  liveness flag of section 9, checked before each operation.
\<close>

datatype mode = ReadOnly | ReadWrite

datatype capability =
    CanRead | CanWrite | CanAppend | CanDeleteLayer | CanCreateDatasource
  | CanCreateLayer | CanUpdateFeature | CanDeleteFeature

datatype field_type = FInteger | FReal | FString | FDate | FBinary | FList field_type

datatype geometry_type =
    Point | LineString | Polygon | MultiPoint | MultiLineString | MultiPolygon
  | GeometryCollection | Unknown

record ('g, 'v) feature =
  feature_id :: "nat option"
  attributes :: "(string \<times> field_type \<times> 'v) list"
  geometry :: "'g option"

record ('g, 'v) layer =
  layer_name :: string
  schema_fields :: "(string \<times> field_type) list"
  layer_geometry :: geometry_type
  spatial_reference :: "string option"
  features :: "('g, 'v) feature list"

record ('g, 'v) datasource =
  resource :: string
  open_mode :: mode
  capabilities :: "capability set"
  layers :: "('g, 'v) layer list"
  alive :: bool

text \<open>
  Modelled from the spec: \<^verbatim>\<open>close()\<close> of section 4.2, which releases the DataSource
  and so invalidates every Layer and Cursor derived from it; missing from the sources.
\<close>

definition close :: "('g, 'v) datasource \<Rightarrow> ('g, 'v) datasource" where
  "close ds = ds\<lparr>alive := False\<rparr>"

text \<open>
  Modelled from the spec: the check of section 9 made before each operation, use after
  close being \<open>UnsupportedOperation\<close> (sections 4.2 and 7); missing from the sources.
\<close>

definition if_alive :: "('g, 'v) datasource \<Rightarrow> error_kind + 'a \<Rightarrow> error_kind + 'a" where
  "if_alive ds result = (if alive ds then result else Inl UnsupportedOperation)"

text \<open>
  Modelled from the spec: a Layer or Cursor derived from a DataSource names its layer and
  reads it from the DataSource at each use; an absent layer is \<open>LayerNotFound\<close>.
  Missing from the sources.
\<close>

definition find_layer :: "('g, 'v) datasource \<Rightarrow> string \<Rightarrow> error_kind + ('g, 'v) layer" where
  "find_layer ds n =
     (case find (\<lambda>l. layer_name l = n) (layers ds) of
        None \<Rightarrow> Inl LayerNotFound
      | Some l \<Rightarrow> Inr l)"

text \<open>
  Modelled from the spec: \<^verbatim>\<open>list_layers()\<close> and \<^verbatim>\<open>layer(name_or_index)\<close> of section
  4.2; missing from the sources.
\<close>

definition list_layers :: "('g, 'v) datasource \<Rightarrow> error_kind + string list" where
  "list_layers ds = if_alive ds (Inr (map layer_name (layers ds)))"

datatype layer_ref = ByName string | ByIndex nat

definition layer :: "('g, 'v) datasource \<Rightarrow> layer_ref \<Rightarrow> error_kind + string" where
  "layer ds ref =
     if_alive ds
       (case ref of
          ByName n \<Rightarrow> map_sum id layer_name (find_layer ds n)
        | ByIndex i \<Rightarrow>
            (if i < length (layers ds) then Inr (layer_name (layers ds ! i))
             else Inl LayerNotFound))"

text \<open>
  Modelled from the spec: \<^verbatim>\<open>create_layer\<close> of section 4.2, \<open>UnsupportedOperation\<close> on
  a read-only DataSource or a driver without the capability; missing from the sources.
\<close>

definition create_layer ::
  "('g, 'v) datasource \<Rightarrow> string \<Rightarrow> geometry_type \<Rightarrow> (string \<times> field_type) list \<Rightarrow> string option
     \<Rightarrow> error_kind + ('g, 'v) datasource" where
  "create_layer ds n gt declared sref =
     if_alive ds
       (if open_mode ds = ReadOnly \<or> CanCreateLayer \<notin> capabilities ds
        then Inl UnsupportedOperation
        else Inr (ds\<lparr>layers := layers ds @
                    [\<lparr>layer_name = n, schema_fields = declared, layer_geometry = gt,
                      spatial_reference = sref, features = []\<rparr>]\<rparr>))"

text \<open>
  Modelled from the spec: \<^verbatim>\<open>schema()\<close> of section 4.3; missing from the sources.
\<close>

definition schema ::
  "('g, 'v) datasource \<Rightarrow> string \<Rightarrow> error_kind + (string \<times> field_type) list \<times> geometry_type \<times> string option" where
  "schema ds n =
     if_alive ds
       (map_sum id (\<lambda>l. (schema_fields l, layer_geometry l, spatial_reference l)) (find_layer ds n))"

text \<open>
  Modelled from the spec: the Feature Cursor of section 4.3, a position in its layer's
  features with the filters and the reprojection asked for; missing from the sources.
  The bounding-box filter is the test it makes on a geometry, the reprojection the
  per-vertex map the CRS Transform Engine produced for the target CRS.
\<close>

record ('g, 'v) cursor =
  over :: string
  bbox_filter :: "('g \<Rightarrow> bool) option"
  attribute_filter :: "(('g, 'v) feature \<Rightarrow> bool) option"
  reprojection :: "('g \<Rightarrow> 'g) option"
  position :: nat

text \<open>
  Modelled from the spec: \<^verbatim>\<open>cursor(bbox_filter?, attribute_filter?, target_crs?)\<close> of
  section 4.3, with \<open>transform\<close> the CRS Transform Engine's operation of section 4.5
  and the layer's own SpatialReference the source CRS; missing from the sources.
\<close>

definition cursor ::
  "(string \<Rightarrow> string \<Rightarrow> error_kind + ('g \<Rightarrow> 'g)) \<Rightarrow> ('g, 'v) datasource \<Rightarrow> string
     \<Rightarrow> ('g \<Rightarrow> bool) option \<Rightarrow> (('g, 'v) feature \<Rightarrow> bool) option \<Rightarrow> string option
     \<Rightarrow> error_kind + ('g, 'v) cursor" where
  "cursor transform ds n bbox attr target_crs =
     if_alive ds
       (case find_layer ds n of
          Inl e \<Rightarrow> Inl e
        | Inr l \<Rightarrow>
            (case target_crs of
               None \<Rightarrow>
                 Inr \<lparr>over = n, bbox_filter = bbox, attribute_filter = attr,
                      reprojection = None, position = 0\<rparr>
             | Some target \<Rightarrow>
                 (case spatial_reference l of
                    None \<Rightarrow> Inl CRSTransformError
                  | Some source \<Rightarrow>
                      (case transform source target of
                         Inl e \<Rightarrow> Inl e
                       | Inr f \<Rightarrow>
                           Inr \<lparr>over = n, bbox_filter = bbox, attribute_filter = attr,
                                reprojection = Some f, position = 0\<rparr>))))"

text \<open>
  Modelled from the spec: whether a feature passes the cursor's filters (the bounding-box
  filter is validated again on the feature read, section 4.3), and the feature as the
  cursor yields it, reprojected when a target CRS was given; missing from the sources.
\<close>

definition passes :: "('g, 'v) cursor \<Rightarrow> ('g, 'v) feature \<Rightarrow> bool" where
  "passes c f \<longleftrightarrow>
     (case bbox_filter c of
        None \<Rightarrow> True
      | Some inside \<Rightarrow> (case geometry f of None \<Rightarrow> False | Some g \<Rightarrow> inside g))
     \<and> (case attribute_filter c of None \<Rightarrow> True | Some p \<Rightarrow> p f)"

definition yielded :: "('g, 'v) cursor \<Rightarrow> ('g, 'v) feature \<Rightarrow> ('g, 'v) feature" where
  "yielded c f =
     (case reprojection c of
        None \<Rightarrow> f
      | Some reproject \<Rightarrow> f\<lparr>geometry := map_option reproject (geometry f)\<rparr>)"

text \<open>
  Modelled from the spec: the pull of section 4.3 from the backend's features that are
  still unread: the first one that passes the filters, and the position after it; or
  the end of the sequence. Missing from the sources.
\<close>

fun pull :: "(('g, 'v) feature \<Rightarrow> bool) \<Rightarrow> ('g, 'v) feature list \<Rightarrow> nat \<Rightarrow> ('g, 'v) feature option \<times> nat" where
  "pull p [] pos = (None, pos)"
| "pull p (f # unread) pos = (if p f then (Some f, Suc pos) else pull p unread (Suc pos))"

text \<open>
  Modelled from the spec: \<^verbatim>\<open>next()\<close> of the Cursor iteration contract of section 4.3;
  \<open>None\<close> signals the end of the sequence. Missing from the sources.
\<close>

definition cursor_next ::
  "('g, 'v) datasource \<Rightarrow> ('g, 'v) cursor \<Rightarrow> error_kind + ('g, 'v) feature option \<times> ('g, 'v) cursor" where
  "cursor_next ds c =
     if_alive ds
       (case find_layer ds (over c) of
          Inl e \<Rightarrow> Inl e
        | Inr l \<Rightarrow>
            (case pull (passes c) (drop (position c) (features l)) (position c) of
               (found, pos) \<Rightarrow> Inr (map_option (yielded c) found, c\<lparr>position := pos\<rparr>)))"

text \<open>
  Modelled from the spec: a caller that calls \<^verbatim>\<open>next()\<close> \<open>n\<close> times and keeps what
  each call gave; missing from the sources.
\<close>

fun nexts ::
  "nat \<Rightarrow> ('g, 'v) datasource \<Rightarrow> ('g, 'v) cursor \<Rightarrow> error_kind + ('g, 'v) feature option list \<times> ('g, 'v) cursor" where
  "nexts 0 ds c = Inr ([], c)"
| "nexts (Suc n) ds c =
     (case cursor_next ds c of
        Inl e \<Rightarrow> Inl e
      | Inr (found, c') \<Rightarrow>
          (case nexts n ds c' of
             Inl e \<Rightarrow> Inl e
           | Inr (later, c'') \<Rightarrow> Inr (found # later, c'')))"

text \<open>
  Modelled from the spec: the mutation contract of section 4.3. \<^verbatim>\<open>insert\<close> appends
  one Feature, giving it an identifier; it needs a writable DataSource and a Feature
  whose field names and types are those of the layer's schema. \<^verbatim>\<open>update\<close> and
  \<^verbatim>\<open>delete\<close> need the driver's capability and a known identifier (for an unknown one
  the spec names no error; the model reports \<open>UnsupportedOperation\<close>). Missing from the
  sources.
\<close>

definition compatible :: "('g, 'v) layer \<Rightarrow> ('g, 'v) feature \<Rightarrow> bool" where
  "compatible l f \<longleftrightarrow> map (\<lambda>(n, t, v). (n, t)) (attributes f) = schema_fields l"

definition put_layer :: "('g, 'v) datasource \<Rightarrow> ('g, 'v) layer \<Rightarrow> ('g, 'v) datasource" where
  "put_layer ds l =
     ds\<lparr>layers := map (\<lambda>old. if layer_name old = layer_name l then l else old) (layers ds)\<rparr>"

definition insert_feature ::
  "('g, 'v) datasource \<Rightarrow> string \<Rightarrow> ('g, 'v) feature \<Rightarrow> error_kind + ('g, 'v) datasource" where
  "insert_feature ds n f =
     if_alive ds
       (case find_layer ds n of
          Inl e \<Rightarrow> Inl e
        | Inr l \<Rightarrow>
            (if open_mode ds = ReadOnly then Inl UnsupportedOperation
             else if \<not> compatible l f then Inl SchemaMismatch
             else Inr (put_layer ds
                    (l\<lparr>features := features l @ [f\<lparr>feature_id := Some (length (features l))\<rparr>]\<rparr>))))"

definition update_feature ::
  "('g, 'v) datasource \<Rightarrow> string \<Rightarrow> ('g, 'v) feature \<Rightarrow> error_kind + ('g, 'v) datasource" where
  "update_feature ds n f =
     if_alive ds
       (case find_layer ds n of
          Inl e \<Rightarrow> Inl e
        | Inr l \<Rightarrow>
            (if open_mode ds = ReadOnly \<or> CanUpdateFeature \<notin> capabilities ds
                \<or> feature_id f = None \<or> feature_id f \<notin> feature_id ` set (features l)
             then Inl UnsupportedOperation
             else if \<not> compatible l f then Inl SchemaMismatch
             else Inr (put_layer ds
                    (l\<lparr>features := map (\<lambda>old. if feature_id old = feature_id f then f else old)
                                      (features l)\<rparr>))))"

definition delete_feature ::
  "('g, 'v) datasource \<Rightarrow> string \<Rightarrow> nat \<Rightarrow> error_kind + ('g, 'v) datasource" where
  "delete_feature ds n i =
     if_alive ds
       (case find_layer ds n of
          Inl e \<Rightarrow> Inl e
        | Inr l \<Rightarrow>
            (if open_mode ds = ReadOnly \<or> CanDeleteFeature \<notin> capabilities ds
                \<or> Some i \<notin> feature_id ` set (features l)
             then Inl UnsupportedOperation
             else Inr (put_layer ds
                    (l\<lparr>features := filter (\<lambda>old. feature_id old \<noteq> Some i) (features l)\<rparr>))))"

subsection \<open>A small Data Source and two native operations\<close>

text \<open>
  Modelled from the spec: a read-only DataSource with one layer of two Point features
  (the first is the feature of the spec's Scenario 1, with coordinates as integers), a
  CRS Transform Engine that knows no transform, and two native operations that raise two
  diagnostics each before they would return 7. None of this is in the sources.
\<close>

definition point_a :: "(int \<times> int, string) feature" where
  "point_a = \<lparr>feature_id = Some 0, attributes = [(''name'', FString, ''a'')], geometry = Some (1, 2)\<rparr>"

definition point_b :: "(int \<times> int, string) feature" where
  "point_b = \<lparr>feature_id = Some 1, attributes = [(''name'', FString, ''b'')], geometry = Some (3, 4)\<rparr>"

definition points_layer :: "(int \<times> int, string) layer" where
  "points_layer =
     \<lparr>layer_name = ''points'', schema_fields = [(''name'', FString)], layer_geometry = Point,
      spatial_reference = Some ''EPSG:4326'', features = [point_a, point_b]\<rparr>"

definition points_source :: "(int \<times> int, string) datasource" where
  "points_source =
     \<lparr>resource = ''points.shp'', open_mode = ReadOnly, capabilities = {CanRead},
      layers = [points_layer], alive = True\<rparr>"

definition no_transform :: "string \<Rightarrow> string \<Rightarrow> error_kind + (int \<times> int \<Rightarrow> int \<times> int)" where
  "no_transform source target = Inl CRSTransformError"

definition points_cursor :: "(int \<times> int, string) cursor" where
  "points_cursor =
     \<lparr>over = ''points'', bbox_filter = None, attribute_filter = None, reprojection = None,
      position = 0\<rparr>"

definition two_warnings :: "nat native_op" where
  "two_warnings =
     Emit \<lparr>severity = Warning, number = 1, message = ''field width ignored''\<rparr>
       (Emit \<lparr>severity = Warning, number = 6, message = ''not recognised''\<rparr> (Return 7))"

definition warning_then_error :: "nat native_op" where
  "warning_then_error =
     Emit \<lparr>severity = Warning, number = 1, message = ''field width ignored''\<rparr>
       (Emit \<lparr>severity = Error, number = 4, message = ''cannot open''\<rparr> (Return 7))"

section \<open>Properties of the build script\<close>

subsection \<open>The registered commands\<close>

text \<open>
  Claim C1. Read as setuptools reads it, the \<^verbatim>\<open>entry_points\<close> literal holds two
  groups and nothing else: \<^verbatim>\<open>console_scripts\<close> with the single script \<^verbatim>\<open>fio\<close>
  (\<^verbatim>\<open>fiona.fio.main:cli\<close>), and \<^verbatim>\<open>fiona.fio_commands\<close> with exactly the nine
  subcommands bounds, cat, collect, distrib, dump, env, info, insp and load, in this
  order, each resolving to the attribute of its own name in the module
  \<^verbatim>\<open>fiona.fio.fio\<close>.
\<close>

theorem entry_points_registered:
  "parse_map entry_points =
     Some [(''console_scripts'',
            [\<lparr>ep_name = ''fio'', ep_module = ''fiona.fio.main'', ep_attr = ''cli''\<rparr>]),
           (''fiona.fio_commands'',
            map (\<lambda>n. \<lparr>ep_name = n, ep_module = ''fiona.fio.fio'', ep_attr = n\<rparr>)
              [''bounds'', ''cat'', ''collect'', ''distrib'', ''dump'', ''env'', ''info'',
               ''insp'', ''load''])]"
  by code_simp

subsection \<open>The classification of compiler and linker options\<close>

lemma cflags_loop_eq:
  "cflags_loop items eo =
     eo\<lparr>include_dirs := include_dirs eo @
          concat (map (\<lambda>t. split_on (CHR '':'') (drop 2 t)) (filter (\<lambda>t. startswith t ''-I'') items))\<rparr>"
  by (induction items arbitrary: eo) simp_all

lemma upper_not_lower: "startswith t ''-L'' \<Longrightarrow> \<not> startswith t ''-l''"
  by (cases t; cases "tl t") (auto simp: startswith_def)

lemma libs_loop_eq:
  "libs_loop items eo =
     eo\<lparr>library_dirs := library_dirs eo @
          concat (map (\<lambda>t. split_on (CHR '':'') (drop 2 t)) (filter (\<lambda>t. startswith t ''-L'') items)),
        libraries := libraries eo @ map (drop 2) (filter (\<lambda>t. startswith t ''-l'') items),
        extra_link_args := extra_link_args eo @
          filter (\<lambda>t. \<not> startswith t ''-L'' \<and> \<not> startswith t ''-l'') items\<rparr>"
  by (induction items arbitrary: eo) (simp_all add: upper_not_lower)



subsection \<open>The version\<close>

lemma split_on_not_Nil: "split_on sep s \<noteq> []"
  by (induction s) (auto split: list.splits)

lemma split_on_unfold:
  "split_on sep s =
     takeWhile (\<lambda>c. c \<noteq> sep) s #
       (if sep \<in> set s then split_on sep (drop 1 (dropWhile (\<lambda>c. c \<noteq> sep) s)) else [])"
  by (induction s) (auto split: list.splits simp: split_on_not_Nil)

lemma version_of_line_equals:
  assumes "CHR ''='' \<in> set line"
  shows "version_of_line line = Inr (unquote (between_equals line))"
proof -
  let ?rest = "drop 1 (dropWhile (\<lambda>c. c \<noteq> CHR ''='') line)"
  have "split_on (CHR ''='') line = takeWhile (\<lambda>c. c \<noteq> CHR ''='') line # split_on (CHR ''='') ?rest"
    using assms split_on_unfold [of "CHR ''=''" line] by simp
  moreover obtain b more where "split_on (CHR ''='') ?rest = b # more" "b = takeWhile (\<lambda>c. c \<noteq> CHR ''='') ?rest"
    using split_on_unfold [of "CHR ''=''" ?rest] by blast
  ultimately show ?thesis
    by (simp add: version_of_line_def unquote_def between_equals_def)
qed

lemma version_of_line_no_equals:
  assumes "CHR ''='' \<notin> set line"
  shows "version_of_line line = Inl (IndexError ''list index out of range'')"
proof -
  have "split_on (CHR ''='') line = [takeWhile (\<lambda>c. c \<noteq> CHR ''='') line]"
    using assms split_on_unfold [of "CHR ''=''" line] by simp
  then show ?thesis by (simp add: version_of_line_def)
qed

lemma parse_version_last:
  assumes "\<forall>l \<in> set ls. py_find l ''__version__'' \<noteq> None \<longrightarrow> CHR ''='' \<in> set l"
  shows "parse_version ls v0 =
           Inr (case filter (\<lambda>line. py_find line ''__version__'' \<noteq> None) ls of
                  [] \<Rightarrow> v0
                | h # hs \<Rightarrow> Some (unquote (between_equals (last (h # hs)))))"
  using assms
proof (induction ls arbitrary: v0)
  case Nil
  then show ?case by simp
next
  case (Cons l ls)
  show ?case
  proof (cases "py_find l ''__version__'' \<noteq> None")
    case True
    then have "version_of_line l = Inr (unquote (between_equals l))"
      using Cons.prems version_of_line_equals by simp
    with True Cons show ?thesis
      by (simp split: list.splits)
  next
    case False
    with Cons show ?thesis by simp
  qed
qed

lemma parse_version_IndexError:
  assumes "\<exists>l \<in> set ls. py_find l ''__version__'' \<noteq> None \<and> CHR ''='' \<notin> set l"
  shows "parse_version ls v0 = Inl (IndexError ''list index out of range'')"
  using assms
proof (induction ls arbitrary: v0)
  case Nil
  then show ?case by simp
next
  case (Cons a ls)
  show ?case
  proof (cases "py_find a ''__version__'' \<noteq> None")
    case hit: True
    show ?thesis
    proof (cases "CHR ''='' \<in> set a")
      case True
      with hit Cons show ?thesis
        by (auto simp: version_of_line_equals)
    next
      case False
      with hit show ?thesis
        by (simp add: version_of_line_no_equals)
    qed
  next
    case False
    with Cons show ?thesis by auto
  qed
qed


text \<open>What the later statements of the script leave alone.\<close>

lemma and_then_files:
  assumes "\<And>s. files (snd (m s)) p = files s p" "\<And>x s. files (snd (f x s)) p = files s p"
  shows "files (snd (and_then m f st)) p = files st p"
proof (cases "m st")
  case (Pair r st')
  then have "files st' p = files st p" using assms(1) [of st] by simp
  with Pair assms(2) show ?thesis
    by (cases r) (simp_all add: and_then_def)
qed

lemma write_file_other: "p \<noteq> q \<Longrightarrow> files (write_file q text st) p = files st p"
  by (simp add: write_file_def)

lemma call_into_files:
  "p \<noteq> q \<Longrightarrow> files (snd (call_into sys argv q st)) p = files st p"
  by (simp add: call_into_def write_file_def split: sum.splits)

lemma rmtree_quiet_files: "files (snd (rmtree_quiet sys path st)) p = files st p"
  by (simp add: rmtree_quiet_def split: prod.splits option.splits)

lemma copytree_step_files: "files (snd (copytree_step sys src dst st)) p = files st p"
  by (simp add: copytree_step_def split: prod.splits option.splits)

lemma run_gdal_config_files:
  assumes "p \<noteq> ''gdal-config.txt''"
  shows "files (snd (run_gdal_config sys st)) p = files st p"
  unfolding run_gdal_config_def Let_def
  by (intro and_then_files)
     (simp_all add: assms write_file_other call_into_files split: prod.splits)

lemma gdal_config_body_files:
  assumes "p \<noteq> ''gdal-config.txt''"
  shows "files (snd (gdal_config_body sys st)) p = files st p"
  unfolding gdal_config_body_def
proof (rule and_then_files)
  show "files (snd (run_gdal_config sys s)) p = files s p" for s
    by (rule run_gdal_config_files [OF assms])
next
  fix x :: "string \<times> string \<times> string" and s :: "'a state"
  obtain cflags libs datadir where x: "x = (cflags, libs, datadir)"
    by (cases x) auto
  let ?s1 = "s\<lparr>opts := parse_options cflags libs (opts s)\<rparr>"
  have "files (snd (and_then (rmtree_quiet sys ''fiona/gdal_data'')
                      (\<lambda>_. copytree_step sys datadir ''fiona/gdal_data'') ?s1)) p = files ?s1 p"
    by (rule and_then_files) (simp_all add: rmtree_quiet_files copytree_step_files)
  then show "files (snd ((case x of (cflags, libs, datadir) \<Rightarrow> \<lambda>st.
           let st1 = st\<lparr>opts := parse_options cflags libs (opts st)\<rparr>
           in if environ_true sys ''PACKAGE_DATA''
              then and_then (rmtree_quiet sys ''fiona/gdal_data'')
                     (\<lambda>_. copytree_step sys datadir ''fiona/gdal_data'') st1
              else (Inr (), st1)) s)) p = files s p"
    by (simp add: x Let_def)
qed

lemma gdal_config_section_files:
  assumes "p \<noteq> ''gdal-config.txt''"
  shows "files (snd (gdal_config_section sys st)) p = files st p"
  using gdal_config_body_files [OF assms, of sys st]
  by (cases "gdal_config_body sys st")
     (auto simp: gdal_config_section_def log_call_def split: sum.splits)

lemma stage_proj_data_files: "files (snd (stage_proj_data sys st)) p = files st p"
proof -
  have "files (snd (and_then (rmtree_quiet sys ''fiona/proj_data'')
                   (\<lambda>_. copytree_step sys (projdatadir sys) ''fiona/proj_data'') st)) p = files st p"
    by (rule and_then_files) (simp_all add: rmtree_quiet_files copytree_step_files)
  then show ?thesis by (simp add: stage_proj_data_def)
qed

lemma ext_modules_files: "files (snd (ext_modules sys st)) p = files st p"
  by (simp add: ext_modules_def Let_def log_call_def split: option.splits)

lemma and_then_version:
  assumes "\<And>x s. \<forall>args. fst (f x s) = Inr args \<longrightarrow> version args = v"
  shows "\<forall>args. fst (and_then m f st) = Inr args \<longrightarrow> version args = v"
proof (cases "m st")
  case (Pair r st')
  with assms show ?thesis
    by (cases r) (simp_all add: and_then_def)
qed

lemma rest_of_script_files:
  "files (snd (rest_of_script sys v st)) ''VERSION.txt'' = files st ''VERSION.txt''"
  unfolding rest_of_script_def
  by (intro and_then_files)
     (simp_all add: gdal_config_section_files stage_proj_data_files ext_modules_files)

lemma rest_of_script_version:
  "\<forall>args. fst (rest_of_script sys v st) = Inr args \<longrightarrow> version args = v"
  unfolding rest_of_script_def
  by (intro and_then_version) simp

lemma setup_py_unfold:
  assumes "fs ''fiona/__init__.py'' = Some init"
  shows "setup_py sys fs tr =
     (let st0 = \<lparr>files = fs, trees = tr, logged = [], opts = no_options\<rparr> in
      case parse_version (file_lines [] init) None of
        Inl e \<Rightarrow> (Inl e, st0)
      | Inr None \<Rightarrow>
          (Inl (NameError ''name 'version' is not defined''), write_file ''VERSION.txt'' [] st0)
      | Inr (Some v) \<Rightarrow> rest_of_script sys v (write_file ''VERSION.txt'' v st0))"
  using assms
  by (simp add: setup_py_def and_then_def read_file_def write_version_def Let_def
           split: sum.splits prod.splits option.splits)


text \<open>
  Claim C10, as the script has it. For \<^verbatim>\<open>fiona/__init__.py\<close> with the text \<open>init\<close>:
  \<^item> if no line contains \<^verbatim>\<open>__version__\<close>, the script ends in a \<^verbatim>\<open>NameError\<close>, with
    \<^verbatim>\<open>VERSION.txt\<close> left empty, and no default is chosen;
  \<^item> if a line that contains \<^verbatim>\<open>__version__\<close> has no \<^verbatim>\<open>=\<close>, the script ends in an
    \<^verbatim>\<open>IndexError\<close>;
  \<^item> otherwise the version is the text between the first \<^verbatim>\<open>=\<close> and the next \<^verbatim>\<open>=\<close>
    (or the end of the line) of the last line that contains \<^verbatim>\<open>__version__\<close>, stripped
    of whitespace, then of double quotes, then of single quotes; this string is what
    \<^verbatim>\<open>VERSION.txt\<close> holds when the script ends, however it ends, and it is the
    \<open>version\<close> argument whenever \<^verbatim>\<open>setup\<close> is called.
\<close>

theorem version_from_init:
  assumes "fs ''fiona/__init__.py'' = Some init"
  shows
    "(version_lines init = [] \<longrightarrow>
        fst (setup_py sys fs tr) = Inl (NameError ''name 'version' is not defined'') \<and>
        files (snd (setup_py sys fs tr)) ''VERSION.txt'' = Some [])
     \<and> ((\<exists>line \<in> set (version_lines init). CHR ''='' \<notin> set line) \<longrightarrow>
        fst (setup_py sys fs tr) = Inl (IndexError ''list index out of range''))
     \<and> (version_lines init \<noteq> [] \<and> (\<forall>line \<in> set (version_lines init). CHR ''='' \<in> set line) \<longrightarrow>
        files (snd (setup_py sys fs tr)) ''VERSION.txt'' =
          Some (unquote (between_equals (last (version_lines init)))) \<and>
        (\<forall>args. fst (setup_py sys fs tr) = Inr args \<longrightarrow>
           version args = unquote (between_equals (last (version_lines init)))))"
proof (intro conjI impI)
  note unfold = setup_py_unfold [of fs init sys tr, OF assms]
  assume none: "version_lines init = []"
  then have "parse_version (file_lines [] init) None = Inr None"
    using parse_version_last [of "file_lines [] init" None]
    by (simp add: version_lines_def filter_empty_conv)
  then show "fst (setup_py sys fs tr) = Inl (NameError ''name 'version' is not defined'')"
    and "files (snd (setup_py sys fs tr)) ''VERSION.txt'' = Some []"
    by (simp_all add: unfold write_file_def)
next
  note unfold = setup_py_unfold [of fs init sys tr, OF assms]
  assume "\<exists>line \<in> set (version_lines init). CHR ''='' \<notin> set line"
  then have "parse_version (file_lines [] init) None = Inl (IndexError ''list index out of range'')"
    by (intro parse_version_IndexError) (auto simp: version_lines_def)
  then show "fst (setup_py sys fs tr) = Inl (IndexError ''list index out of range'')"
    by (simp add: unfold)
next
  note unfold = setup_py_unfold [of fs init sys tr, OF assms]
  let ?v = "unquote (between_equals (last (version_lines init)))"
  assume ok: "version_lines init \<noteq> [] \<and> (\<forall>line \<in> set (version_lines init). CHR ''='' \<in> set line)"
  then have "parse_version (file_lines [] init) None = Inr (Some ?v)"
    using parse_version_last [of "file_lines [] init" None]
    by (auto simp: version_lines_def split: list.splits)
  then have run: "setup_py sys fs tr =
      rest_of_script sys ?v (write_file ''VERSION.txt'' ?v \<lparr>files = fs, trees = tr, logged = [], opts = no_options\<rparr>)"
    by (simp add: unfold)
  show "files (snd (setup_py sys fs tr)) ''VERSION.txt'' = Some ?v"
    by (simp add: run rest_of_script_files write_file_def)
  show "\<forall>args. fst (setup_py sys fs tr) = Inr args \<longrightarrow> version args = ?v"
    unfolding run by (rule rest_of_script_version)
qed


text \<open>
  The theorem at the source tree whose \<^verbatim>\<open>fiona/__init__.py\<close> has the one version line
  \<^verbatim>\<open>__version__ = "1.4.8"\<close>, on the system without \<^verbatim>\<open>gdal-config\<close>.
\<close>

theorem version_from_init_witness:
  "version_lines ''import logging\<newline>__version__ = \"1.4.8\"\<newline>'' = [''__version__ = \"1.4.8\"\<newline>'']
   \<and> files (snd (setup_py bare_system (source_files ''import logging\<newline>__version__ = \"1.4.8\"\<newline>'') []))
        ''VERSION.txt'' = Some ''1.4.8''
   \<and> (\<exists>args. fst (setup_py bare_system (source_files ''import logging\<newline>__version__ = \"1.4.8\"\<newline>'') []) = Inr args
         \<and> version args = ''1.4.8'')"
proof -
  let ?init = "''import logging\<newline>__version__ = \"1.4.8\"\<newline>''"
  have init_file: "source_files ?init ''fiona/__init__.py'' = Some ?init"
    by (simp add: source_files_def)
  have hits: "version_lines ?init = [''__version__ = \"1.4.8\"\<newline>'']"
    by code_simp
  have stripped: "unquote (between_equals ''__version__ = \"1.4.8\"\<newline>'') = ''1.4.8''"
    by code_simp
  have "\<not> isl (fst (setup_py bare_system (source_files ?init) []))"
    by code_simp
  then obtain args where ends: "fst (setup_py bare_system (source_files ?init) []) = Inr args"
    by (cases "fst (setup_py bare_system (source_files ?init) [])") auto
  from version_from_init [of "source_files ?init" ?init bare_system "[]", OF init_file] hits stripped ends
  show ?thesis by auto
qed


text \<open>
  Claim C10 as it was stated takes the whole text after the first \<^verbatim>\<open>=\<close>, from the last
  line that contains \<^verbatim>\<open>__version__\<close>. For the line \<^verbatim>\<open>__version__ = "1=2"\<close> that text
  is \<^verbatim>\<open>1=2\<close>, while the script writes \<^verbatim>\<open>1\<close>; and with a comment line that mentions
  \<^verbatim>\<open>__version__\<close> before the assignment, the script ends in an \<^verbatim>\<open>IndexError\<close> where
  the stated rule gives \<^verbatim>\<open>1.0\<close>.
\<close>

theorem version_after_first_equals_counterexample:
  "files (snd (setup_py bare_system (source_files ''__version__ = \"1=2\"\<newline>'') [])) ''VERSION.txt''
     = Some ''1''
   \<and> unquote (after_first_equals (last (version_lines ''__version__ = \"1=2\"\<newline>''))) = ''1=2''
   \<and> fst (setup_py bare_system (source_files ''# __version__ is set below\<newline>__version__ = \"1.0\"\<newline>'') [])
     = Inl (IndexError ''list index out of range'')
   \<and> unquote (after_first_equals (last (version_lines ''# __version__ is set below\<newline>__version__ = \"1.0\"\<newline>'')))
     = ''1.0''"
  by code_simp

subsection \<open>Failures of gdal-config\<close>

lemma and_then_opts:
  assumes "\<And>s. opts (snd (m s)) = opts s" "\<And>x s. opts (snd (f x s)) = opts s"
  shows "opts (snd (and_then m f st)) = opts st"
proof (cases "m st")
  case (Pair r st')
  then have "opts st' = opts st" using assms(1) [of st] by simp
  with Pair assms(2) show ?thesis
    by (cases r) (simp_all add: and_then_def)
qed

lemma call_into_opts: "opts (snd (call_into sys argv path st)) = opts st"
  by (simp add: call_into_def write_file_def split: sum.splits)

lemma rmtree_quiet_opts: "opts (snd (rmtree_quiet sys path st)) = opts st"
  by (simp add: rmtree_quiet_def split: prod.splits option.splits)

lemma copytree_step_opts: "opts (snd (copytree_step sys src dst st)) = opts st"
  by (simp add: copytree_step_def split: prod.splits option.splits)

lemma run_gdal_config_opts: "opts (snd (run_gdal_config sys st)) = opts st"
  unfolding run_gdal_config_def Let_def
  by (intro and_then_opts) (simp_all add: write_file_def call_into_opts split: prod.splits)

lemma staging_opts:
  "opts (snd (and_then (rmtree_quiet sys dst) (\<lambda>_. copytree_step sys src dst) st)) = opts st"
  by (rule and_then_opts) (simp_all add: rmtree_quiet_opts copytree_step_opts)

lemma gdal_config_body_cases:
  "(fst (gdal_config_body sys st) = fst (map_prod (map_sum id (\<lambda>_. ())) id (run_gdal_config sys st)) \<and>
    isl (fst (run_gdal_config sys st)) \<and>
    opts (snd (gdal_config_body sys st)) = opts st)
   \<or> (\<exists>cflags libs datadir.
         fst (run_gdal_config sys st) = Inr (cflags, libs, datadir) \<and>
         opts (snd (gdal_config_body sys st)) = parse_options cflags libs (opts st))"
proof (cases "run_gdal_config sys st")
  case (Pair r s1)
  have s1: "opts s1 = opts st"
    using run_gdal_config_opts [of sys st] Pair by simp
  show ?thesis
  proof (cases r)
    case (Inl e)
    with Pair s1 show ?thesis
      by (simp add: gdal_config_body_def and_then_def)
  next
    case (Inr x)
    obtain cflags libs datadir where x: "x = (cflags, libs, datadir)"
      by (cases x) auto
    have "opts (snd (gdal_config_body sys st)) = parse_options cflags libs (opts st)"
      using Pair Inr x s1
      by (simp add: gdal_config_body_def and_then_def [of "run_gdal_config sys"] Let_def staging_opts)
    with Pair Inr x show ?thesis by simp
  qed
qed



subsection \<open>The locations of the support data\<close>










subsection \<open>The choice of extension modules\<close>

text \<open>
  Claim C8. Which extension modules are built depends on the existence of
  \<^verbatim>\<open>MANIFEST.in\<close> alone. If it exists and \<^verbatim>\<open>cythonize\<close> was imported, the outcome is
  that of \<^verbatim>\<open>cythonize\<close> on the five modules \<^verbatim>\<open>fiona._geometry\<close>, \<^verbatim>\<open>fiona._transform\<close>,
  \<^verbatim>\<open>fiona._drivers\<close>, \<^verbatim>\<open>fiona._err\<close> and \<^verbatim>\<open>fiona.ogrext\<close> with their \<^verbatim>\<open>.pyx\<close>
  sources. If it exists and \<^verbatim>\<open>cythonize\<close> was not imported, a critical message is
  logged and the script ends with \<^verbatim>\<open>SystemExit(1)\<close>, whatever statements follow. If it
  does not exist, the same five modules are given with their \<^verbatim>\<open>.c\<close> sources
  (\<^verbatim>\<open>.cpp\<close> for \<^verbatim>\<open>fiona._transform\<close>), \<^verbatim>\<open>cythonize\<close> is not looked at, and nothing is
  logged.
\<close>

theorem ext_modules_selection:
  "(path_exists sys ''MANIFEST.in'' st \<longrightarrow>
      (\<forall>cy. cythonize sys = Some cy \<longrightarrow> fst (ext_modules sys st) = cy (pyx_extensions (opts st)))
      \<and> (cythonize sys = None \<longrightarrow>
            fst (ext_modules sys st) = Inl (SystemExit 1)
            \<and> last (logged (snd (ext_modules sys st))) =
                (CRITICAL, ''Cython.Build.cythonize not found. Cython is required to build from a repo.'')
            \<and> (\<forall>k. fst (and_then (ext_modules sys) k st) = Inl (SystemExit 1))))
   \<and> (\<not> path_exists sys ''MANIFEST.in'' st \<longrightarrow>
        ext_modules sys st = (Inr (c_extensions (opts st)), st))
   \<and> map (\<lambda>x. (name x, sources x, options x)) (pyx_extensions eo) =
        [(''fiona._geometry'', [''fiona/_geometry.pyx''], eo),
         (''fiona._transform'', [''fiona/_transform.pyx''], eo),
         (''fiona._drivers'', [''fiona/_drivers.pyx''], eo),
         (''fiona._err'', [''fiona/_err.pyx''], eo),
         (''fiona.ogrext'', [''fiona/ogrext.pyx''], eo)]
   \<and> map (\<lambda>x. (name x, sources x, options x)) (c_extensions eo) =
        [(''fiona._transform'', [''fiona/_transform.cpp''], eo),
         (''fiona._geometry'', [''fiona/_geometry.c''], eo),
         (''fiona._drivers'', [''fiona/_drivers.c''], eo),
         (''fiona._err'', [''fiona/_err.c''], eo),
         (''fiona.ogrext'', [''fiona/ogrext.c''], eo)]
   \<and> set (map name (c_extensions eo)) = set (map name (pyx_extensions eo))"
proof -
  have repo: "fst (ext_modules sys st) = cy (pyx_extensions (opts st))"
    if "path_exists sys ''MANIFEST.in'' st" "cythonize sys = Some cy" for cy
    using that by (simp add: ext_modules_def Let_def)
  have no_cython: "ext_modules sys st =
      (Inl (SystemExit 1),
       log_call CRITICAL ''Cython.Build.cythonize not found. Cython is required to build from a repo.''
         (log_call INFO ''MANIFEST.in found, presume a repo, cythonizing...'' st))"
    if "path_exists sys ''MANIFEST.in'' st" "cythonize sys = None"
    using that by (simp add: ext_modules_def Let_def)
  have sdist: "ext_modules sys st = (Inr (c_extensions (opts st)), st)"
    if "\<not> path_exists sys ''MANIFEST.in'' st"
    using that by (simp add: ext_modules_def Let_def)
  have pyx: "map (\<lambda>x. (name x, sources x, options x)) (pyx_extensions eo) =
        [(''fiona._geometry'', [''fiona/_geometry.pyx''], eo),
         (''fiona._transform'', [''fiona/_transform.pyx''], eo),
         (''fiona._drivers'', [''fiona/_drivers.pyx''], eo),
         (''fiona._err'', [''fiona/_err.pyx''], eo),
         (''fiona.ogrext'', [''fiona/ogrext.pyx''], eo)]"
    by (simp add: pyx_extensions_def mk_Extension_def)
  have c: "map (\<lambda>x. (name x, sources x, options x)) (c_extensions eo) =
        [(''fiona._transform'', [''fiona/_transform.cpp''], eo),
         (''fiona._geometry'', [''fiona/_geometry.c''], eo),
         (''fiona._drivers'', [''fiona/_drivers.c''], eo),
         (''fiona._err'', [''fiona/_err.c''], eo),
         (''fiona.ogrext'', [''fiona/ogrext.c''], eo)]"
    by (simp add: c_extensions_def mk_Extension_def)
  have same: "set (map name (c_extensions eo)) = set (map name (pyx_extensions eo))"
    by (simp add: c_extensions_def pyx_extensions_def mk_Extension_def insert_commute)
  from repo no_cython sdist pyx c same show ?thesis
    by (simp add: and_then_def log_call_def)
qed

text \<open>
  The theorem on a repository with Cython, on the same repository without Cython, and
  on a source distribution.
\<close>

theorem ext_modules_selection_witness:
  "path_exists gdal_system ''MANIFEST.in'' start
   \<and> fst (ext_modules gdal_system start) = Inr (pyx_extensions no_options)
   \<and> cythonize (gdal_system\<lparr>cythonize := None\<rparr>) = None
   \<and> fst (ext_modules (gdal_system\<lparr>cythonize := None\<rparr>) start) = Inl (SystemExit 1)
   \<and> \<not> path_exists bare_system ''MANIFEST.in'' start
   \<and> ext_modules bare_system start = (Inr (c_extensions no_options), start)"
proof -
  have repo: "path_exists gdal_system ''MANIFEST.in'' start"
    and repo': "path_exists (gdal_system\<lparr>cythonize := None\<rparr>) ''MANIFEST.in'' start"
    and cython: "cythonize gdal_system = Some Inr"
    and sdist: "\<not> path_exists bare_system ''MANIFEST.in'' start"
    by (simp_all add: gdal_system_def bare_system_def)
  have none: "opts start = no_options"
    by (simp add: start_def)
  from ext_modules_selection [where sys = gdal_system and st = start and eo = no_options] repo cython none
  have a: "fst (ext_modules gdal_system start) = Inr (pyx_extensions no_options)"
    by simp
  have "cythonize (gdal_system\<lparr>cythonize := None\<rparr>) = None"
    by simp
  with ext_modules_selection [where sys = "gdal_system\<lparr>cythonize := None\<rparr>" and st = start and eo = no_options] repo'
  have b: "fst (ext_modules (gdal_system\<lparr>cythonize := None\<rparr>) start) = Inl (SystemExit 1)"
    by blast
  from ext_modules_selection [where sys = bare_system and st = start and eo = no_options] sdist none
  have c: "ext_modules bare_system start = (Inr (c_extensions no_options), start)"
    by simp
  from repo a b sdist c show ?thesis by simp
qed

subsection \<open>The options from one-line answers of gdal-config\<close>

text \<open>
  The loops of lines 66 to 76 classify the pieces of \<^verbatim>\<open>cflags\<close> and \<^verbatim>\<open>libs\<close>; these
  lemmas connect the two texts with what the program gdal-config printed.
\<close>

lemma split_words_spaces_after:
  "\<forall>c \<in> set ws. is_space c \<Longrightarrow> split_words acc (s @ ws) = split_words acc s"
proof (induction s arbitrary: acc)
  case Nil
  then show ?case by (induction ws arbitrary: acc) auto
next
  case (Cons x s)
  then show ?case by simp
qed

lemma split_words_spaces_before: "split_words [] (dropWhile is_space s) = split_words [] s"
  by (induction s) simp_all

lemma strip_where_decompose:
  "dropWhile p s = strip_where p s @ rev (takeWhile p (rev (dropWhile p s)))"
proof -
  have "strip_where p s @ rev (takeWhile p (rev (dropWhile p s))) =
      rev (takeWhile p (rev (dropWhile p s)) @ dropWhile p (rev (dropWhile p s)))"
    unfolding strip_where_def by (rule rev_append [symmetric])
  then show ?thesis by simp
qed

lemma py_split_strip: "py_split (py_strip s) = py_split s"
proof -
  let ?trail = "rev (takeWhile is_space (rev (dropWhile is_space s)))"
  have spaces: "\<forall>c \<in> set ?trail. is_space c"
    by (auto dest: set_takeWhileD)
  have "split_words [] s = split_words [] (dropWhile is_space s)"
    by (simp add: split_words_spaces_before)
  also have "\<dots> = split_words [] (py_strip s @ ?trail)"
    using strip_where_decompose [of is_space s] by (simp add: py_strip_def)
  also have "\<dots> = split_words [] (py_strip s)"
    using spaces by (rule split_words_spaces_after)
  finally show ?thesis by (simp add: py_split_def)
qed

lemma split_words_break:
  "is_space c \<Longrightarrow> split_words acc (a @ c # b) = split_words acc a @ split_words [] b"
  by (induction a arbitrary: acc) simp_all

lemma split_words_token:
  "\<forall>c \<in> set t. \<not> is_space c \<Longrightarrow>
   split_words acc t = (if acc = [] \<and> t = [] then [] else [rev acc @ t])"
  by (induction t arbitrary: acc) simp_all

text \<open>
  What \<^verbatim>\<open>str.split()\<close> without an argument returns: nothing for the empty text, a
  text without whitespace as its only piece, and the pieces of both sides of any
  whitespace character.
\<close>

theorem py_split_tokens:
  "py_split [] = []
   \<and> (\<forall>t. t \<noteq> [] \<and> (\<forall>c \<in> set t. \<not> is_space c) \<longrightarrow> py_split t = [t])
   \<and> (\<forall>a c b. is_space c \<longrightarrow> py_split (a @ c # b) = py_split a @ py_split b)"
  by (simp add: py_split_def split_words_break split_words_token)

theorem py_split_tokens_witness:
  "py_split ''-I/a:/b'' = [''-I/a:/b'']
   \<and> py_split (''-L/usr/lib'' @ CHR '' '' # ''-lgdal'') = py_split ''-L/usr/lib'' @ py_split ''-lgdal''
   \<and> py_split ''-L/usr/lib -lgdal'' = [''-L/usr/lib'', ''-lgdal'']"
proof -
  have token: "''-I/a:/b'' \<noteq> [] \<and> (\<forall>c \<in> set ''-I/a:/b''. \<not> is_space c)"
    by (simp add: is_space_def)
  have blank: "is_space (CHR '' '')"
    by (simp add: is_space_def)
  from py_split_tokens token have one: "py_split ''-I/a:/b'' = [''-I/a:/b'']"
    by blast
  from py_split_tokens blank
  have two: "py_split (''-L/usr/lib'' @ CHR '' '' # ''-lgdal'') = py_split ''-L/usr/lib'' @ py_split ''-lgdal''"
    by blast
  have "py_split ''-L/usr/lib -lgdal'' = [''-L/usr/lib'', ''-lgdal'']"
    by code_simp
  with one two show ?thesis by simp
qed

lemma readline_line:
  assumes "CHR 0x0A \<notin> set a"
  shows "readline (a @ CHR 0x0A # rest) = (a @ [CHR 0x0A], rest)"
proof -
  have no: "\<And>x. x \<in> set a \<Longrightarrow> x \<noteq> CHR 0x0A"
    using assms by auto
  have "takeWhile (\<lambda>c. c \<noteq> CHR 0x0A) (a @ CHR 0x0A # rest) = a"
    using no by (simp add: takeWhile_append2)
  moreover have "dropWhile (\<lambda>c. c \<noteq> CHR 0x0A) (a @ CHR 0x0A # rest) = CHR 0x0A # rest"
    using no by (simp add: dropWhile_append2)
  ultimately show ?thesis
    by (simp add: readline_def Let_def)
qed

lemma py_strip_newline: "py_strip (a @ [CHR 0x0A]) = py_strip a"
proof (cases "\<forall>c \<in> set a. is_space c")
  case True
  then have "dropWhile is_space (a @ [CHR 0x0A]) = []" "dropWhile is_space a = []"
    by (simp_all add: is_space_def)
  then show ?thesis
    by (simp add: py_strip_def strip_where_def del: dropWhile_eq_Nil_conv)
next
  case False
  then obtain x where "x \<in> set a" "\<not> is_space x" by blast
  then have "dropWhile is_space (a @ [CHR 0x0A]) = dropWhile is_space a @ [CHR 0x0A]"
    by (rule dropWhile_append1)
  then show ?thesis
    by (simp add: py_strip_def strip_where_def is_space_def)
qed

text \<open>
  When gdal-config prints one line for each of the three questions, the three
  \<^verbatim>\<open>readline().strip()\<close> of lines 63 to 65 give these three lines.
\<close>

lemma run_gdal_config_one_line:
  assumes "subprocess_call sys [environ_get sys ''GDAL_CONFIG'' ''gdal-config'', ''--cflags'']
             = Inr (a @ [CHR 0x0A])"
    and "subprocess_call sys [environ_get sys ''GDAL_CONFIG'' ''gdal-config'', ''--libs'']
             = Inr (b @ [CHR 0x0A])"
    and "subprocess_call sys [environ_get sys ''GDAL_CONFIG'' ''gdal-config'', ''--datadir'']
             = Inr (d @ [CHR 0x0A])"
    and "CHR 0x0A \<notin> set a" "CHR 0x0A \<notin> set b" "CHR 0x0A \<notin> set d"
  shows "fst (run_gdal_config sys st) = Inr (py_strip a, py_strip b, py_strip d)"
proof -
  let ?g = "environ_get sys ''GDAL_CONFIG'' ''gdal-config''"
  let ?p = "''gdal-config.txt''"
  let ?s0 = "write_file ?p [] st"
  let ?s1 = "write_file ?p (a @ [CHR 0x0A]) ?s0"
  let ?s2 = "write_file ?p ((a @ [CHR 0x0A]) @ b @ [CHR 0x0A]) ?s1"
  let ?s3 = "write_file ?p (((a @ [CHR 0x0A]) @ b @ [CHR 0x0A]) @ d @ [CHR 0x0A]) ?s2"
  have c1: "call_into sys [?g, ''--cflags''] ?p ?s0 = (Inr (), ?s1)"
    using assms(1) by (simp add: call_into_def write_file_def)
  have c2: "call_into sys [?g, ''--libs''] ?p ?s1 = (Inr (), ?s2)"
    using assms(2) by (simp add: call_into_def write_file_def)
  have c3: "call_into sys [?g, ''--datadir''] ?p ?s2 = (Inr (), ?s3)"
    using assms(3) by (simp add: call_into_def write_file_def)
  have content: "read_file ?p ?s3 = Inr (a @ CHR 0x0A # b @ CHR 0x0A # d @ [CHR 0x0A])"
    by (simp add: read_file_def write_file_def)
  have lines: "readline (a @ CHR 0x0A # b @ CHR 0x0A # d @ [CHR 0x0A]) =
        (a @ [CHR 0x0A], b @ CHR 0x0A # d @ [CHR 0x0A])"
      "readline (b @ CHR 0x0A # d @ [CHR 0x0A]) = (b @ [CHR 0x0A], d @ [CHR 0x0A])"
      "readline (d @ [CHR 0x0A]) = (d @ [CHR 0x0A], [])"
    using assms(4-6) by (simp_all add: readline_line)
  show ?thesis
    unfolding run_gdal_config_def Let_def
    by (simp only: and_then_def prod.case sum.case c1 c2 c3 content lines py_strip_newline fst_conv)
qed

lemma gdal_config_section_opts:
  "opts (snd (gdal_config_section sys st)) = opts (snd (gdal_config_body sys st))"
  by (cases "gdal_config_body sys st")
     (auto simp: gdal_config_section_def log_call_def split: sum.splits)

text \<open>
  When gdal-config prints one line for each question, the option lists after the
  \<^verbatim>\<open>try\<close> statement are the ones before it, extended by the classification of the
  whitespace-separated pieces of the \<^verbatim>\<open>--cflags\<close> and \<^verbatim>\<open>--libs\<close> lines.
\<close>

theorem gdal_config_one_line_answers:
  assumes "subprocess_call sys [environ_get sys ''GDAL_CONFIG'' ''gdal-config'', ''--cflags'']
             = Inr (a @ [CHR 0x0A])"
    and "subprocess_call sys [environ_get sys ''GDAL_CONFIG'' ''gdal-config'', ''--libs'']
             = Inr (b @ [CHR 0x0A])"
    and "subprocess_call sys [environ_get sys ''GDAL_CONFIG'' ''gdal-config'', ''--datadir'']
             = Inr (d @ [CHR 0x0A])"
    and "CHR 0x0A \<notin> set a" "CHR 0x0A \<notin> set b" "CHR 0x0A \<notin> set d"
  shows "opts (snd (gdal_config_section sys st)) =
           (opts st)\<lparr>include_dirs := include_dirs (opts st) @
               concat (map (\<lambda>t. split_on (CHR '':'') (drop 2 t))
                         (filter (\<lambda>t. startswith t ''-I'') (py_split a))),
             library_dirs := library_dirs (opts st) @
               concat (map (\<lambda>t. split_on (CHR '':'') (drop 2 t))
                         (filter (\<lambda>t. startswith t ''-L'') (py_split b))),
             libraries := libraries (opts st) @
               map (drop 2) (filter (\<lambda>t. startswith t ''-l'') (py_split b)),
             extra_link_args := extra_link_args (opts st) @
               filter (\<lambda>t. \<not> startswith t ''-L'' \<and> \<not> startswith t ''-l'') (py_split b)\<rparr>"
proof -
  have "fst (run_gdal_config sys st) = Inr (py_strip a, py_strip b, py_strip d)"
    using assms by (rule run_gdal_config_one_line)
  with gdal_config_body_cases [of sys st]
  have "opts (snd (gdal_config_body sys st)) = parse_options (py_strip a) (py_strip b) (opts st)"
    by auto
  then show ?thesis
    by (simp add: gdal_config_section_opts parse_options_def cflags_loop_eq libs_loop_eq
          py_split_strip)
qed

theorem gdal_config_one_line_answers_witness:
  "subprocess_call gdal_system [environ_get gdal_system ''GDAL_CONFIG'' ''gdal-config'', ''--libs'']
     = Inr (''-L/usr/lib -lgdal'' @ [CHR 0x0A])
   \<and> opts (snd (gdal_config_section gdal_system start)) =
       \<lparr>include_dirs = [''/usr/include/gdal''], library_dirs = [''/usr/lib''],
        libraries = [''gdal''], extra_link_args = []\<rparr>"
proof -
  have program: "environ_get gdal_system ''GDAL_CONFIG'' ''gdal-config'' = ''gdal-config''"
    by (simp add: environ_get_def gdal_system_def)
  have answers:
    "subprocess_call gdal_system [environ_get gdal_system ''GDAL_CONFIG'' ''gdal-config'', ''--cflags'']
       = Inr (''-I/usr/include/gdal'' @ [CHR 0x0A])"
    "subprocess_call gdal_system [environ_get gdal_system ''GDAL_CONFIG'' ''gdal-config'', ''--libs'']
       = Inr (''-L/usr/lib -lgdal'' @ [CHR 0x0A])"
    "subprocess_call gdal_system [environ_get gdal_system ''GDAL_CONFIG'' ''gdal-config'', ''--datadir'']
       = Inr (''/usr/share/gdal'' @ [CHR 0x0A])"
    unfolding program by (simp_all add: gdal_system_def)
  have one_line: "CHR 0x0A \<notin> set ''-I/usr/include/gdal''" "CHR 0x0A \<notin> set ''-L/usr/lib -lgdal''"
      "CHR 0x0A \<notin> set ''/usr/share/gdal''"
    by simp_all
  have tokens: "py_split ''-I/usr/include/gdal'' = [''-I/usr/include/gdal'']"
      "py_split ''-L/usr/lib -lgdal'' = [''-L/usr/lib'', ''-lgdal'']"
    by code_simp+
  have none: "opts start = no_options"
    by (simp add: start_def)
  from gdal_config_one_line_answers [OF answers one_line, of start]
  have "opts (snd (gdal_config_section gdal_system start)) =
       \<lparr>include_dirs = [''/usr/include/gdal''], library_dirs = [''/usr/lib''],
        libraries = [''gdal''], extra_link_args = []\<rparr>"
    by (simp add: tokens none no_options_def startswith_def)
  with answers(2) show ?thesis by simp
qed

section \<open>Properties of the modelled engine\<close>

subsection \<open>Warnings, errors and fatal errors\<close>

lemma capture_collects:
  "capture k collected operation =
     (case dropWhile (\<lambda>r. severity r = Warning) (diagnostics operation) of
        [] \<Rightarrow> Inr (returned operation, collected @ diagnostics operation)
      | r # rest \<Rightarrow>
          Inl \<lparr>kind = (if severity r = Fatal then NativeFatalError else k),
               native_code = number r, native_message = message r\<rparr>)"
proof (induction operation arbitrary: collected)
  case (Return x)
  show ?case by simp
next
  case (Emit r rest)
  show ?case
  proof (cases "severity r")
    case Warning
    with Emit.IH [of "collected @ [r]"] show ?thesis
      by (simp del: dropWhile_eq_Nil_conv split: list.splits)
  next
    case Error
    then show ?thesis by simp
  next
    case Fatal
    then show ?thesis by simp
  qed
qed

text \<open>
  Claim C6, on the model of the Error Translator. If every diagnostic an operation raises
  under the capture context is a warning, the operation is not aborted: its result is
  returned, and all the warnings come with it, in order. If some diagnostic is an error
  or a fatal record, the first of these aborts the operation: a structured error is
  raised that carries this record's native code and message, of kind
  \<open>NativeFatalError\<close> for a fatal record and of the operation's error kind otherwise.
\<close>

theorem severity_policy:
  "((\<forall>r \<in> set (diagnostics operation). severity r = Warning) \<longrightarrow>
      with_error_capture k operation = Inr (returned operation, diagnostics operation))
   \<and> (\<forall>warnings r rest.
        diagnostics operation = warnings @ r # rest \<and>
        (\<forall>w \<in> set warnings. severity w = Warning) \<and> severity r \<noteq> Warning \<longrightarrow>
        with_error_capture k operation =
          Inl \<lparr>kind = (if severity r = Fatal then NativeFatalError else k),
               native_code = number r, native_message = message r\<rparr>)"
proof (intro conjI allI impI)
  assume "\<forall>r \<in> set (diagnostics operation). severity r = Warning"
  then have "dropWhile (\<lambda>r. severity r = Warning) (diagnostics operation) = []"
    by simp
  then show "with_error_capture k operation = Inr (returned operation, diagnostics operation)"
    by (simp add: with_error_capture_def capture_collects del: dropWhile_eq_Nil_conv)
next
  fix warnings r rest
  assume "diagnostics operation = warnings @ r # rest \<and>
        (\<forall>w \<in> set warnings. severity w = Warning) \<and> severity r \<noteq> Warning"
  then have "dropWhile (\<lambda>r. severity r = Warning) (diagnostics operation) = r # rest"
    by (simp add: dropWhile_append3)
  then show "with_error_capture k operation =
          Inl \<lparr>kind = (if severity r = Fatal then NativeFatalError else k),
               native_code = number r, native_message = message r\<rparr>"
    by (simp add: with_error_capture_def capture_collects)
qed

text \<open>
  The theorem on an operation that raises two warnings, and on one that raises a warning
  and then an error.
\<close>

theorem severity_policy_witness:
  "with_error_capture DataSourceOpenError two_warnings =
     Inr (7, [\<lparr>severity = Warning, number = 1, message = ''field width ignored''\<rparr>,
              \<lparr>severity = Warning, number = 6, message = ''not recognised''\<rparr>])
   \<and> with_error_capture DataSourceOpenError warning_then_error =
       Inl \<lparr>kind = DataSourceOpenError, native_code = 4, native_message = ''cannot open''\<rparr>"
proof -
  have all_warnings: "\<forall>r \<in> set (diagnostics two_warnings). severity r = Warning"
    by (simp add: two_warnings_def)
  have raised: "diagnostics warning_then_error =
      [\<lparr>severity = Warning, number = 1, message = ''field width ignored''\<rparr>] @
      \<lparr>severity = Error, number = 4, message = ''cannot open''\<rparr> # []"
    by (simp add: warning_then_error_def)
  from severity_policy [of two_warnings DataSourceOpenError] all_warnings
  have attached: "with_error_capture DataSourceOpenError two_warnings =
      Inr (returned two_warnings, diagnostics two_warnings)"
    by blast
  from severity_policy [of warning_then_error DataSourceOpenError] raised
  have aborted: "with_error_capture DataSourceOpenError warning_then_error =
      Inl \<lparr>kind = (if severity \<lparr>severity = Error, number = 4, message = ''cannot open''\<rparr> = Fatal
                    then NativeFatalError else DataSourceOpenError),
           native_code = number \<lparr>severity = Error, number = 4, message = ''cannot open''\<rparr>,
           native_message = message \<lparr>severity = Error, number = 4, message = ''cannot open''\<rparr>\<rparr>"
    by (elim conjE allE [of _ "[\<lparr>severity = Warning, number = 1, message = ''field width ignored''\<rparr>]"]
             allE [of _ "\<lparr>severity = Error, number = 4, message = ''cannot open''\<rparr>"]
             allE [of _ "[]"]) simp
  from attached aborted show ?thesis
    by (simp add: two_warnings_def)
qed

subsection \<open>Use after close\<close>

text \<open>
  Claim C5, on the model of the Data Source. Closing a closed DataSource changes
  nothing, however often it is done; and on a closed DataSource every operation of
  sections 4.2 and 4.3, on the DataSource itself, on a layer of it or on a cursor
  obtained before, fails with \<open>UnsupportedOperation\<close>: listing and getting layers,
  creating a layer, reading the schema, opening a cursor, \<^verbatim>\<open>next()\<close> once or
  repeatedly, inserting, updating and deleting a feature.
\<close>

theorem closed_source_safety:
  "close (close ds) = close ds
   \<and> (close ^^ n) (close ds) = close ds
   \<and> list_layers (close ds) = Inl UnsupportedOperation
   \<and> layer (close ds) ref = Inl UnsupportedOperation
   \<and> create_layer (close ds) lname gt declared sref = Inl UnsupportedOperation
   \<and> schema (close ds) lname = Inl UnsupportedOperation
   \<and> cursor transform (close ds) lname bbox attr target = Inl UnsupportedOperation
   \<and> cursor_next (close ds) c = Inl UnsupportedOperation
   \<and> nexts (Suc m) (close ds) c = Inl UnsupportedOperation
   \<and> insert_feature (close ds) lname f = Inl UnsupportedOperation
   \<and> update_feature (close ds) lname f = Inl UnsupportedOperation
   \<and> delete_feature (close ds) lname i = Inl UnsupportedOperation"
proof -
  have once: "close (close ds) = close ds"
    by (simp add: close_def)
  have again: "(close ^^ n) (close ds) = close ds"
    by (induction n) (simp_all add: close_def)
  have dead: "\<not> alive (close ds)"
    by (simp add: close_def)
  have guarded: "if_alive (close ds) r = Inl UnsupportedOperation" for r :: "error_kind + 'x"
    using dead by (simp add: if_alive_def)
  show ?thesis
    by (simp add: once again guarded list_layers_def layer_def create_layer_def schema_def
          cursor_def cursor_next_def insert_feature_def update_feature_def delete_feature_def)
qed

text \<open>
  The theorem on the example DataSource: the cursor that yields its first feature
  while the DataSource is open fails after one close and after two.
\<close>

theorem closed_source_safety_witness:
  "alive points_source
   \<and> cursor_next points_source points_cursor = Inr (Some point_a, points_cursor\<lparr>position := 1\<rparr>)
   \<and> cursor_next (close points_source) points_cursor = Inl UnsupportedOperation
   \<and> cursor_next (close (close points_source)) points_cursor = Inl UnsupportedOperation
   \<and> insert_feature (close points_source) ''points'' point_a = Inl UnsupportedOperation"
proof -
  have before: "alive points_source"
    and pulled: "cursor_next points_source points_cursor = Inr (Some point_a, points_cursor\<lparr>position := 1\<rparr>)"
    by (simp_all add: points_source_def points_cursor_def points_layer_def cursor_next_def
          if_alive_def find_layer_def passes_def yielded_def)
  note after = closed_source_safety [where ds = points_source and c = points_cursor
      and lname = "''points''" and f = point_a]
  from after have once: "close (close points_source) = close points_source"
    by (rule conjunct1)
  from after have "cursor_next (close points_source) points_cursor = Inl UnsupportedOperation"
    and "insert_feature (close points_source) ''points'' point_a = Inl UnsupportedOperation"
    by simp_all
  with before pulled once show ?thesis by simp
qed

subsection \<open>Iterating to the end\<close>

lemma pull_passing:
  "\<forall>f \<in> set unread. p f \<Longrightarrow>
   pull p unread pos = (case unread of [] \<Rightarrow> (None, pos) | f # _ \<Rightarrow> (Some f, Suc pos))"
  by (cases unread) simp_all

lemma passes_position: "passes (c\<lparr>position := i\<rparr>) = passes c"
  by (simp add: passes_def fun_eq_iff)

lemma yielded_position: "yielded (c\<lparr>position := i\<rparr>) = yielded c"
  by (simp add: yielded_def fun_eq_iff)

lemma passes_no_filter: "bbox_filter c = None \<Longrightarrow> attribute_filter c = None \<Longrightarrow> passes c f"
  by (simp add: passes_def)

lemma next_inside:
  assumes "alive ds" "find_layer ds (over c) = Inr l" "\<forall>f \<in> set (features l). passes c f"
    and "i < length (features l)"
  shows "cursor_next ds (c\<lparr>position := i\<rparr>) =
           Inr (Some (yielded c (features l ! i)), c\<lparr>position := Suc i\<rparr>)"
proof -
  from assms(4) obtain f unread where unread: "drop i (features l) = f # unread"
    by (cases "drop i (features l)") auto
  then have f: "f = features l ! i"
    using assms(4) by (metis nth_via_drop)
  have "\<forall>f \<in> set (drop i (features l)). passes c f"
    using assms(3) by (meson in_set_dropD)
  then have "pull (passes c) (drop i (features l)) i = (Some f, Suc i)"
    using unread by (simp add: pull_passing)
  with assms(1,2) f show ?thesis
    by (simp add: cursor_next_def if_alive_def passes_position yielded_position)
qed

lemma next_at_end:
  assumes "alive ds" "find_layer ds (over c) = Inr l" "length (features l) \<le> i"
  shows "cursor_next ds (c\<lparr>position := i\<rparr>) = Inr (None, c\<lparr>position := i\<rparr>)"
  using assms by (simp add: cursor_next_def if_alive_def)

lemma nexts_from:
  assumes "alive ds" "find_layer ds (over c) = Inr l" "\<forall>f \<in> set (features l). passes c f"
  shows "i \<le> length (features l) \<Longrightarrow> length (features l) - i = d \<Longrightarrow>
         nexts (Suc d) ds (c\<lparr>position := i\<rparr>) =
           Inr (map (\<lambda>f. Some (yielded c f)) (drop i (features l)) @ [None],
                c\<lparr>position := length (features l)\<rparr>)"
proof (induction d arbitrary: i)
  case 0
  then have "i = length (features l)" by simp
  then show ?case
    using next_at_end [OF assms(1,2), of i] by simp
next
  case (Suc d)
  then have inside: "i < length (features l)" by simp
  then have step: "drop i (features l) = features l ! i # drop (Suc i) (features l)"
    by (simp add: Cons_nth_drop_Suc)
  have "nexts (Suc d) ds (c\<lparr>position := Suc i\<rparr>) =
           Inr (map (\<lambda>f. Some (yielded c f)) (drop (Suc i) (features l)) @ [None],
                c\<lparr>position := length (features l)\<rparr>)"
    using Suc by simp
  then show ?case
    using next_inside [OF assms inside] step
    by (simp del: nexts.simps add: nexts.simps(2) [of "Suc d"])
qed

text \<open>
  Claim C7, on the model of the Feature Cursor. For a cursor just obtained over a layer
  of \<open>N\<close> features, with no filter or with filters that every feature of the layer
  passes: \<open>N + 1\<close> calls of \<^verbatim>\<open>next()\<close> give the \<open>N\<close> features of the layer, in the
  layer's order (reprojected if a target CRS was given), and then the end of the
  sequence; the call made at position \<open>i < N\<close> yields feature \<open>i\<close> and moves the
  cursor by exactly one feature; and at position \<open>N\<close> the end is signalled and the
  cursor stays where it is.
\<close>

theorem cursor_exhaustion:
  assumes "cursor transform ds n bbox attr target = Inr c"
    and "find_layer ds n = Inr l"
    and "(bbox_filter c = None \<and> attribute_filter c = None) \<or> (\<forall>f \<in> set (features l). passes c f)"
  shows "nexts (Suc (length (features l))) ds c =
           Inr (map (\<lambda>f. Some (yielded c f)) (features l) @ [None],
                c\<lparr>position := length (features l)\<rparr>)
         \<and> (\<forall>i < length (features l).
               cursor_next ds (c\<lparr>position := i\<rparr>) =
                 Inr (Some (yielded c (features l ! i)), c\<lparr>position := Suc i\<rparr>))
         \<and> cursor_next ds (c\<lparr>position := length (features l)\<rparr>) =
               Inr (None, c\<lparr>position := length (features l)\<rparr>)"
proof -
  from assms(1) have live: "alive ds"
    by (auto simp: cursor_def if_alive_def split: if_splits)
  from assms(1,2) have over: "over c = n" and fresh: "position c = 0"
    by (auto simp: cursor_def if_alive_def split: if_splits option.splits sum.splits)
  from assms(3) have all: "\<forall>f \<in> set (features l). passes c f"
    by (auto simp: passes_no_filter)
  have here: "find_layer ds (over c) = Inr l"
    using assms(2) over by simp
  have at_start: "c\<lparr>position := 0\<rparr> = c"
    using fresh by simp
  have "nexts (Suc (length (features l))) ds (c\<lparr>position := 0\<rparr>) =
           Inr (map (\<lambda>f. Some (yielded c f)) (drop 0 (features l)) @ [None],
                c\<lparr>position := length (features l)\<rparr>)"
    by (rule nexts_from [OF live here all]) simp_all
  then have drained: "nexts (Suc (length (features l))) ds c =
           Inr (map (\<lambda>f. Some (yielded c f)) (features l) @ [None],
                c\<lparr>position := length (features l)\<rparr>)"
    by (simp add: at_start)
  from drained next_inside [OF live here all] next_at_end [OF live here order_refl]
  show ?thesis by simp
qed

text \<open>
  The theorem on the example DataSource, whose layer has two features: three calls
  give the two features and the end of the sequence.
\<close>

theorem cursor_exhaustion_witness:
  "cursor no_transform points_source ''points'' None None None = Inr points_cursor
   \<and> find_layer points_source ''points'' = Inr points_layer
   \<and> length (features points_layer) = 2
   \<and> nexts 3 points_source points_cursor =
       Inr ([Some point_a, Some point_b, None], points_cursor\<lparr>position := 2\<rparr>)"
proof -
  have found: "find_layer points_source ''points'' = Inr points_layer"
    by (simp add: find_layer_def points_source_def points_layer_def)
  have opened: "cursor no_transform points_source ''points'' None None None = Inr points_cursor"
    by (simp add: cursor_def if_alive_def found points_cursor_def) (simp add: points_source_def)
  have unfiltered: "(bbox_filter points_cursor = None \<and> attribute_filter points_cursor = None)
      \<or> (\<forall>f \<in> set (features points_layer). passes points_cursor f)"
    by (simp add: points_cursor_def)
  have two: "features points_layer = [point_a, point_b]"
    by (simp add: points_layer_def)
  have same: "yielded points_cursor = (\<lambda>f. f)"
    by (simp add: yielded_def points_cursor_def fun_eq_iff)
  from cursor_exhaustion [OF opened found unfiltered]
  have "nexts (Suc (length (features points_layer))) points_source points_cursor =
      Inr (map (\<lambda>f. Some (yielded points_cursor f)) (features points_layer) @ [None],
           points_cursor\<lparr>position := length (features points_layer)\<rparr>)"
    by (rule conjunct1)
  then have "nexts 3 points_source points_cursor =
       Inr ([Some point_a, Some point_b, None], points_cursor\<lparr>position := 2\<rparr>)"
    by (simp add: two same numeral_3_eq_3)
  with opened found two show ?thesis by simp
qed

end
